theory Spec2Isabelle
  imports
    Complex_Main
    "HOL-Library.AList"
    "HOL-Library.Multiset"
    "HOL-Library.Char_ord"
    "HOL-Library.List_Lexorder"
begin

section \<open>Inventory insight dashboard: data loader and insight functions\<close>

text \<open>
  The development embeds \<^verbatim>\<open>src/data_loader.py\<close> and \<^verbatim>\<open>src/insights.py\<close>.
  Both are written against pandas. The pandas operations they call are modelled by the
  definitions of the first subsections (cells, rows, frames, series arithmetic, masks,
  sorting, aggregation); the functions of the repository are then written with them, one
  model statement per source statement.

  What the model keeps of pandas: columns by name in order, rows in order, the missing
  marker NaN and the two infinities with their IEEE rules in arithmetic and comparisons,
  \<^verbatim>\<open>KeyError\<close> for a column that is not there, the position of NaN in sorts (last), the
  stability of the multi-key sort, NaN being skipped by \<^verbatim>\<open>sum\<close>, \<^verbatim>\<open>mean\<close> and \<^verbatim>\<open>nunique\<close>,
  and object identity for the one in-place assignment the insight functions make.
  What it leaves out: rounding, overflow and the sign of zero in float64 arithmetic
  (a finite number is an exact rational), wrap-around of int64 columns, index labels
  (rows are positional), and the text of what is printed.
\<close>

subsection \<open>float64 values\<close>

datatype fl = Fin rat | PInf | NInf | NaN


fun fl_add :: "fl \<Rightarrow> fl \<Rightarrow> fl" where
  "fl_add (Fin a) (Fin b) = Fin (a + b)"
| "fl_add NaN y = NaN"
| "fl_add x NaN = NaN"
| "fl_add PInf NInf = NaN"
| "fl_add NInf PInf = NaN"
| "fl_add PInf y = PInf"
| "fl_add NInf y = NInf"
| "fl_add (Fin a) y = y"


text \<open>The sign of a value that is not NaN, and the infinity of a given sign
  (no sign: the invalid operations \<open>0 \<times> \<infinity>\<close> and \<open>0 / 0\<close>, which give NaN).\<close>

fun fl_sign :: "fl \<Rightarrow> rat" where
  "fl_sign (Fin a) = sgn a"
| "fl_sign PInf = 1"
| "fl_sign NInf = - 1"
| "fl_sign NaN = 0"

definition inf_of_sign :: "rat \<Rightarrow> fl" where
  "inf_of_sign s = (if 0 < s then PInf else if s < 0 then NInf else NaN)"


fun fl_div :: "fl \<Rightarrow> fl \<Rightarrow> fl" where
  "fl_div (Fin a) (Fin b) = (if b = 0 then inf_of_sign (sgn a) else Fin (a / b))"
| "fl_div NaN y = NaN"
| "fl_div x NaN = NaN"
| "fl_div (Fin a) y = Fin 0"
| "fl_div x (Fin b) = inf_of_sign (fl_sign x * (if b < 0 then - 1 else 1))"
| "fl_div x y = NaN"

text \<open>Comparisons: every comparison with NaN is false.\<close>

fun fl_less :: "fl \<Rightarrow> fl \<Rightarrow> bool" where
  "fl_less (Fin a) (Fin b) = (a < b)"
| "fl_less NInf (Fin b) = True"
| "fl_less NInf PInf = True"
| "fl_less (Fin a) PInf = True"
| "fl_less x y = False"

definition fl_le :: "fl \<Rightarrow> fl \<Rightarrow> bool" where
  "fl_le x y = (x \<noteq> NaN \<and> y \<noteq> NaN \<and> (x = y \<or> fl_less x y))"

definition fl_ge :: "fl \<Rightarrow> fl \<Rightarrow> bool" where
  "fl_ge x y = fl_le y x"

definition fl_gt :: "fl \<Rightarrow> fl \<Rightarrow> bool" where
  "fl_gt x y = fl_less y x"

definition fl_of_int :: "int \<Rightarrow> fl" where
  "fl_of_int n = Fin (of_int n)"

subsection \<open>Cells, rows, frames\<close>

text \<open>A cell holds text or a number; a missing cell is the number NaN, in a text column
  as well. A row lists its cells by column name; a frame has its column names, in order,
  and its rows, in order. A column that a row does not list reads as missing.\<close>

datatype cell = Str string | Flt fl

type_synonym row = "(string \<times> cell) list"

record frame =
  columns :: "string list"
  rows :: "row list"

datatype error =
    FileNotFoundError string
  | ReadError
  | KeyError string
  | TypeError
  | ValueError
  | IndexError

definition err_bind :: "error + 'a \<Rightarrow> ('a \<Rightarrow> error + 'b) \<Rightarrow> error + 'b" where
  "err_bind m k = (case m of Inl e \<Rightarrow> Inl e | Inr x \<Rightarrow> k x)"

definition lookup :: "row \<Rightarrow> string \<Rightarrow> cell" where
  "lookup r c = (case map_of r c of Some v \<Rightarrow> v | None \<Rightarrow> Flt NaN)"

fun is_number :: "cell \<Rightarrow> bool" where
  "is_number (Flt x) = True"
| "is_number (Str s) = False"

fun num_of :: "cell \<Rightarrow> fl" where
  "num_of (Flt x) = x"
| "num_of (Str s) = NaN"

definition numv :: "row \<Rightarrow> string \<Rightarrow> fl" where
  "numv r c = num_of (lookup r c)"

text \<open>\<^verbatim>\<open>df[c]\<close>: the column as a series, \<^verbatim>\<open>KeyError\<close> when there is no such column.\<close>

definition getitem :: "frame \<Rightarrow> string \<Rightarrow> error + cell list" where
  "getitem df c =
     (if c \<in> set (columns df) then Inr (map (\<lambda>r. lookup r c) (rows df)) else Inl (KeyError c))"

text \<open>A series used in arithmetic or in a comparison with a number: a text cell makes
  the operation raise \<^verbatim>\<open>TypeError\<close>.\<close>

definition as_numeric :: "cell list \<Rightarrow> error + fl list" where
  "as_numeric s = (if list_all is_number s then Inr (map num_of s) else Inl TypeError)"

definition getnum :: "frame \<Rightarrow> string \<Rightarrow> error + fl list" where
  "getnum df c = err_bind (getitem df c) as_numeric"

text \<open>\<^verbatim>\<open>df[c] = series\<close>: replaces the column, or appends it as the last one. The value
  is the frame after the assignment.\<close>

definition with_column :: "frame \<Rightarrow> string \<Rightarrow> cell list \<Rightarrow> frame" where
  "with_column df c s =
     \<lparr>columns = (if c \<in> set (columns df) then columns df else columns df @ [c]),
      rows = map2 (\<lambda>r v. AList.update c v r) (rows df) s\<rparr>"

definition setitem :: "frame \<Rightarrow> string \<Rightarrow> cell list \<Rightarrow> error + frame" where
  "setitem df c s =
     (if length s \<noteq> length (rows df) then Inl ValueError else Inr (with_column df c s))"

subsection \<open>data_loader.py\<close>





text \<open>\<^verbatim>\<open>str.strip()\<close> on the ASCII white space of Python.\<close>

definition is_space :: "char \<Rightarrow> bool" where
  "is_space c = (of_char c \<in> {9, 10, 11, 12, 13, 28, 29, 30, 31, 32 :: nat})"

definition strip :: "string \<Rightarrow> string" where
  "strip s = rev (dropWhile is_space (rev (dropWhile is_space s)))"

text \<open>\<^verbatim>\<open>col.str.strip()\<close>: an element that is not a string becomes NaN.\<close>

fun str_strip :: "cell \<Rightarrow> cell" where
  "str_strip (Str s) = Str (strip s)"
| "str_strip (Flt x) = Flt NaN"

text \<open>\<^verbatim>\<open>df.select_dtypes(include="object").columns\<close>: the columns that hold text.\<close>

definition object_columns :: "frame \<Rightarrow> string list" where
  "object_columns df =
     filter (\<lambda>c. \<exists>r \<in> set (rows df). \<not> is_number (lookup r c)) (columns df)"

definition map_column :: "(cell \<Rightarrow> cell) \<Rightarrow> frame \<Rightarrow> string \<Rightarrow> frame" where
  "map_column g df c = df\<lparr>rows := map (\<lambda>r. AList.update c (g (lookup r c)) r) (rows df)\<rparr>"

definition strip_strings :: "frame \<Rightarrow> frame" where
  "strip_strings df =
     (let string_columns = object_columns df
      in if length string_columns > 0 then foldl (map_column str_strip) df string_columns
         else df)"

text \<open>\<^verbatim>\<open>pd.to_numeric(series, errors="coerce")\<close>: the parser of numerals is the
  library's and is a parameter; what it does not accept becomes NaN.\<close>

fun to_numeric :: "(string \<Rightarrow> fl option) \<Rightarrow> cell \<Rightarrow> cell" where
  "to_numeric parse (Flt x) = Flt x"
| "to_numeric parse (Str s) = (case parse s of Some x \<Rightarrow> Flt x | None \<Rightarrow> Flt NaN)"

definition coerce_column :: "(string \<Rightarrow> fl option) \<Rightarrow> frame \<Rightarrow> string \<Rightarrow> frame" where
  "coerce_column parse df column =
     (if column \<in> set (columns df) then map_column (to_numeric parse) df column else df)"



subsection \<open>Masks, selection, sorting\<close>

text \<open>\<^verbatim>\<open>df[mask]\<close> keeps the rows where the mask is true; \<^verbatim>\<open>df.loc[mask, cols]\<close> also
  keeps only the listed columns, in the listed order; \<^verbatim>\<open>df[cols]\<close> keeps all rows.\<close>

definition select_rows :: "bool list \<Rightarrow> 'a list \<Rightarrow> 'a list" where
  "select_rows bmask xs = map fst (filter snd (zip xs bmask))"

definition project :: "string list \<Rightarrow> row \<Rightarrow> row" where
  "project cs r = map (\<lambda>c. (c, lookup r c)) cs"

definition filter_rows :: "frame \<Rightarrow> bool list \<Rightarrow> error + frame" where
  "filter_rows df bmask =
     (if length bmask \<noteq> length (rows df) then Inl IndexError
      else Inr (df\<lparr>rows := select_rows bmask (rows df)\<rparr>))"

definition select_columns :: "frame \<Rightarrow> string list \<Rightarrow> error + frame" where
  "select_columns df cs =
     (case filter (\<lambda>c. c \<notin> set (columns df)) cs of
        c # _ \<Rightarrow> Inl (KeyError c)
      | [] \<Rightarrow> Inr \<lparr>columns = cs, rows = map (project cs) (rows df)\<rparr>)"

definition loc :: "frame \<Rightarrow> bool list \<Rightarrow> string list \<Rightarrow> error + frame" where
  "loc df bmask cs = err_bind (filter_rows df bmask) (\<lambda>t. select_columns t cs)"

text \<open>Insertion into a list ordered by \<open>le\<close>, before the first element that may follow;
  sorting by insertion from the right is stable.\<close>

fun insort_by :: "('a \<Rightarrow> 'a \<Rightarrow> bool) \<Rightarrow> 'a \<Rightarrow> 'a list \<Rightarrow> 'a list" where
  "insort_by le x [] = [x]"
| "insort_by le x (y # ys) = (if le x y then x # y # ys else y # insort_by le x ys)"

definition stable_sort_by :: "('a \<Rightarrow> 'a \<Rightarrow> bool) \<Rightarrow> 'a list \<Rightarrow> 'a list" where
  "stable_sort_by le xs = foldr (insort_by le) xs []"

text \<open>The order of one sort key: \<open>key_before asc x y\<close> when \<open>x\<close> sorts strictly before
  \<open>y\<close>; NaN sorts last, ascending or descending (\<^verbatim>\<open>na_position="last"\<close>). Several
  keys compare lexicographically.\<close>

definition key_before :: "bool \<Rightarrow> fl \<Rightarrow> fl \<Rightarrow> bool" where
  "key_before asc x y = (x \<noteq> NaN \<and> (y = NaN \<or> (if asc then fl_less x y else fl_less y x)))"

fun lex_le :: "bool list \<Rightarrow> fl list \<Rightarrow> fl list \<Rightarrow> bool" where
  "lex_le (a # as) (x # xs) (y # ys) = (key_before a x y \<or> (x = y \<and> lex_le as xs ys))"
| "lex_le as xs ys = True"

fun sequence_err :: "(error + 'a) list \<Rightarrow> error + 'a list" where
  "sequence_err [] = Inr []"
| "sequence_err (m # ms) = err_bind m (\<lambda>x. err_bind (sequence_err ms) (\<lambda>xs. Inr (x # xs)))"

text \<open>\<^verbatim>\<open>df.sort_values(by=..., ascending=...)\<close>. With several keys pandas sorts
  lexicographically and stably. With one key it uses numpy's default quicksort, which
  promises nothing on the order of rows with equal keys: the model keeps their order,
  and nothing below relies on that.\<close>

definition sort_values :: "frame \<Rightarrow> string list \<Rightarrow> bool list \<Rightarrow> error + frame" where
  "sort_values df by ascending =
     err_bind (sequence_err (map (getnum df) by)) (\<lambda>_.
     Inr (df\<lparr>rows := stable_sort_by
            (\<lambda>r1 r2. lex_le ascending (map (numv r1) by) (map (numv r2) by)) (rows df)\<rparr>))"

definition copy_frame :: "frame \<Rightarrow> frame" where
  "copy_frame df = df"

definition reset_index_drop :: "frame \<Rightarrow> frame" where
  "reset_index_drop df = df"

definition empty :: "frame \<Rightarrow> bool" where
  "empty df = (columns df = [] \<or> rows df = [])"

definition iloc :: "frame \<Rightarrow> nat \<Rightarrow> error + row" where
  "iloc df i = (if i < length (rows df) then Inr (rows df ! i) else Inl IndexError)"

definition row_getitem :: "row \<Rightarrow> string \<Rightarrow> error + cell" where
  "row_getitem r c = (case map_of r c of Some v \<Rightarrow> Inr v | None \<Rightarrow> Inl (KeyError c))"

subsection \<open>Aggregation\<close>

text \<open>\<^verbatim>\<open>sum\<close> and \<^verbatim>\<open>mean\<close> skip NaN; the sum of nothing is 0, the mean of nothing is NaN.
  \<^verbatim>\<open>nunique\<close> counts the distinct values that are not missing.\<close>

definition nansum :: "fl list \<Rightarrow> fl" where
  "nansum xs = foldl fl_add (Fin 0) (filter (\<lambda>x. x \<noteq> NaN) xs)"

definition nanmean :: "fl list \<Rightarrow> fl" where
  "nanmean xs =
     (let ys = filter (\<lambda>x. x \<noteq> NaN) xs
      in if ys = [] then NaN else fl_div (foldl fl_add (Fin 0) ys) (Fin (of_nat (length ys))))"

definition nunique :: "cell list \<Rightarrow> nat" where
  "nunique s = length (remdups (filter (\<lambda>c. c \<noteq> Flt NaN) s))"

datatype aggfunc = Sum | Mean | Nunique

fun aggregate :: "aggfunc \<Rightarrow> cell list \<Rightarrow> error + cell" where
  "aggregate Sum s = err_bind (as_numeric s) (\<lambda>xs. Inr (Flt (nansum xs)))"
| "aggregate Mean s = err_bind (as_numeric s) (\<lambda>xs. Inr (Flt (nanmean xs)))"
| "aggregate Nunique s = Inr (Flt (Fin (of_nat (nunique s))))"

text \<open>The order of group keys: numbers, then text, then the missing key.\<close>

fun cell_le :: "cell \<Rightarrow> cell \<Rightarrow> bool" where
  "cell_le x (Flt NaN) = True"
| "cell_le (Flt NaN) y = False"
| "cell_le (Flt x) (Flt y) = fl_le x y"
| "cell_le (Flt x) (Str t) = True"
| "cell_le (Str s) (Flt y) = False"
| "cell_le (Str s) (Str t) = (s \<le> t)"

text \<open>\<^verbatim>\<open>df.groupby(key, dropna=False)\<close>: one group for each distinct key, the missing
  key included, in key order, each with its rows in source order.\<close>

definition groupby :: "frame \<Rightarrow> string \<Rightarrow> error + (cell \<times> row list) list" where
  "groupby df key =
     err_bind (getitem df key) (\<lambda>ks.
     Inr (map (\<lambda>k. (k, filter (\<lambda>r. lookup r key = k) (rows df)))
            (stable_sort_by cell_le (remdups ks))))"

text \<open>\<^verbatim>\<open>.agg(name=(column, func), ...)\<close> followed by \<^verbatim>\<open>reset_index()\<close>: one row for each
  group, the key first (under the name of the key column), then the named aggregates.\<close>

definition agg_row ::
    "string \<Rightarrow> (string \<times> string \<times> aggfunc) list \<Rightarrow> cell \<times> row list \<Rightarrow> error + row" where
  "agg_row key specs g =
     err_bind
       (sequence_err (map (\<lambda>(name, column, f).
          err_bind (aggregate f (map (\<lambda>r. lookup r column) (snd g))) (\<lambda>v. Inr (name, v))) specs))
       (\<lambda>cells. Inr ((key, fst g) # cells))"

definition agg ::
    "frame \<Rightarrow> string \<Rightarrow> (string \<times> string \<times> aggfunc) list \<Rightarrow> error + frame" where
  "agg df key specs =
     err_bind (groupby df key) (\<lambda>groups.
     case filter (\<lambda>(name, column, f). column \<notin> set (columns df)) specs of
       (name, column, f) # _ \<Rightarrow> Inl (KeyError column)
     | [] \<Rightarrow>
         err_bind (sequence_err (map (agg_row key specs) groups)) (\<lambda>rs.
         Inr \<lparr>columns = key # map fst specs, rows = rs\<rparr>))"

definition head :: "nat \<Rightarrow> frame \<Rightarrow> frame" where
  "head n df = df\<lparr>rows := take n (rows df)\<rparr>"

subsection \<open>Objects and output\<close>

text \<open>A DataFrame is a mutable object. The objects that exist are kept in a list, and a
  reference is a position in it: creating an object appends it, assigning a column in
  place replaces the object at its position. What \<^verbatim>\<open>print\<close> writes is kept as the
  sequence of the values printed, not as text.\<close>

type_synonym ref = nat

datatype line = Line string "cell list" | Table frame

record state =
  objects :: "frame list"
  stdout :: "line list"

definition deref :: "state \<Rightarrow> ref \<Rightarrow> frame" where
  "deref st a = objects st ! a"

definition new_object :: "state \<Rightarrow> frame \<Rightarrow> ref \<times> state" where
  "new_object st df = (length (objects st), st\<lparr>objects := objects st @ [df]\<rparr>)"

definition setitem_inplace :: "state \<Rightarrow> ref \<Rightarrow> string \<Rightarrow> cell list \<Rightarrow> error + state" where
  "setitem_inplace st a c s =
     err_bind (setitem (deref st a) c s) (\<lambda>df. Inr (st\<lparr>objects := (objects st)[a := df]\<rparr>))"

definition print :: "state \<Rightarrow> line \<Rightarrow> state" where
  "print st l = st\<lparr>stdout := stdout st @ [l]\<rparr>"

definition count_cell :: "frame \<Rightarrow> cell" where
  "count_cell df = Flt (Fin (of_nat (length (rows df))))"

subsection \<open>insights.py\<close>

definition low_stock_profitable ::
    "state \<Rightarrow> ref \<Rightarrow> int \<Rightarrow> fl \<Rightarrow> error + (ref \<times> state)" where
  "low_stock_profitable st df quantity_threshold margin_threshold =
     err_bind (getnum (deref st df) ''Available_Quantity'') (\<lambda>qty.
     err_bind (getnum (deref st df) ''ProfitMargin'') (\<lambda>margin.
     let bmask = map2 (\<and>) (map (\<lambda>x. fl_le x (fl_of_int quantity_threshold)) qty)
                          (map (\<lambda>x. fl_ge x margin_threshold) margin)
     in
     err_bind (loc (deref st df) bmask
        [''Product_ID'', ''Product_Name'', ''Available_Quantity'', ''Profit'', ''ProfitMargin''])
       (\<lambda>t1.
     err_bind (sort_values t1 [''ProfitMargin'', ''Profit''] [False, False]) (\<lambda>t2.
     let (insights, st1) = new_object st (reset_index_drop t2);
         st2 = print st1 (Line ''[low_stock_profitable]''
                 [count_cell (deref st1 insights), Flt (fl_of_int quantity_threshold),
                  Flt margin_threshold])
     in
     if \<not> empty (deref st2 insights) then
       err_bind (iloc (deref st2 insights) 0) (\<lambda>top.
       err_bind (row_getitem top ''Product_Name'') (\<lambda>name.
       err_bind (row_getitem top ''ProfitMargin'') (\<lambda>m.
       err_bind (row_getitem top ''Available_Quantity'') (\<lambda>q.
       Inr (insights, print st2 (Line ''Quick tip'' [name, m, q]))))))
     else Inr (insights, st2)))))"

definition overstock_low_profit ::
    "state \<Rightarrow> ref \<Rightarrow> int \<Rightarrow> fl \<Rightarrow> error + (ref \<times> state)" where
  "overstock_low_profit st df quantity_threshold margin_threshold =
     err_bind (getnum (deref st df) ''Available_Quantity'') (\<lambda>qty.
     err_bind (getnum (deref st df) ''ProfitMargin'') (\<lambda>margin.
     let bmask = map2 (\<and>) (map (\<lambda>x. fl_ge x (fl_of_int quantity_threshold)) qty)
                          (map (\<lambda>x. fl_le x margin_threshold) margin)
     in
     err_bind (loc (deref st df) bmask
        [''Product_ID'', ''Product_Name'', ''Product_Brand'', ''Available_Quantity'',
         ''ProfitMargin'', ''StockValue''])
       (\<lambda>t1.
     err_bind (sort_values t1 [''Available_Quantity'', ''ProfitMargin''] [False, True]) (\<lambda>t2.
     let (insights, st1) = new_object st (reset_index_drop t2);
         st2 = print st1 (Line ''[overstock_low_profit]''
                 [count_cell (deref st1 insights), Flt (fl_of_int quantity_threshold),
                  Flt margin_threshold])
     in
     if \<not> empty (deref st2 insights) then
       err_bind (getnum (deref st2 insights) ''StockValue'') (\<lambda>sv.
       let stuck_value = nansum sv
       in Inr (insights, print st2 (Line ''Inventory tied up'' [Flt stuck_value])))
     else Inr (insights, st2)))))"

text \<open>Lines 81 to 83 of \<^verbatim>\<open>fast_moving_products\<close>:
  \<^verbatim>\<open>working_df = df[(...) & (...)].copy()\<close>. The selection is a new frame, and the copy
  is the object that \<^verbatim>\<open>working_df\<close> names.\<close>

definition working_df_of :: "state \<Rightarrow> ref \<Rightarrow> int \<Rightarrow> error + (ref \<times> state)" where
  "working_df_of st df min_monthly_sales =
     err_bind (getnum (deref st df) ''Average_Stock_Level'') (\<lambda>asl.
     err_bind (getnum (deref st df) ''Monthly_Sale_Quantity'') (\<lambda>msq.
     let bmask = map2 (\<and>) (map (\<lambda>x. fl_gt x (Fin 0)) asl)
                          (map (\<lambda>x. fl_ge x (fl_of_int min_monthly_sales)) msq)
     in
     err_bind (filter_rows (deref st df) bmask) (\<lambda>selected.
     Inr (new_object st (copy_frame selected)))))"

definition fast_moving_products ::
    "state \<Rightarrow> ref \<Rightarrow> fl \<Rightarrow> int \<Rightarrow> error + (ref \<times> state)" where
  "fast_moving_products st df velocity_threshold min_monthly_sales =
     err_bind (working_df_of st df min_monthly_sales) (\<lambda>(working_df, st1).
     err_bind (getnum (deref st1 working_df) ''Total_Sold'') (\<lambda>sold.
     err_bind (getnum (deref st1 working_df) ''Average_Stock_Level'') (\<lambda>asl.
     err_bind (setitem_inplace st1 working_df ''SellThroughRate''
                 (map Flt (map2 fl_div sold asl))) (\<lambda>st2.
     err_bind (getnum (deref st2 working_df) ''SellThroughRate'') (\<lambda>rate.
     err_bind (filter_rows (deref st2 working_df)
                 (map (\<lambda>x. fl_ge x velocity_threshold) rate)) (\<lambda>t1.
     err_bind (sort_values t1 [''SellThroughRate''] [False]) (\<lambda>t2.
     err_bind (select_columns (reset_index_drop t2)
        [''Product_ID'', ''Product_Name'', ''Monthly_Sale_Quantity'', ''Average_Stock_Level'',
         ''SellThroughRate'', ''ProfitMargin'']) (\<lambda>t3.
     let (insights, st3) = new_object st2 t3;
         st4 = print st3 (Line ''[fast_moving_products]''
                 [count_cell (deref st3 insights), Flt velocity_threshold,
                  Flt (fl_of_int min_monthly_sales)])
     in
     if \<not> empty (deref st4 insights) then
       err_bind (iloc (deref st4 insights) 0) (\<lambda>top.
       err_bind (row_getitem top ''Product_Name'') (\<lambda>name.
       err_bind (row_getitem top ''SellThroughRate'') (\<lambda>v.
       Inr (insights, print st4 (Line ''Fastest mover'' [name, v])))))
     else Inr (insights, st4)))))))))"

definition brand_summary :: "state \<Rightarrow> ref \<Rightarrow> error + (ref \<times> state)" where
  "brand_summary st df =
     err_bind (agg (deref st df) ''Product_Brand''
        [(''TotalProfit'', ''Profit'', Sum),
         (''TotalStockValue'', ''StockValue'', Sum),
         (''AvgProfitMargin'', ''ProfitMargin'', Mean),
         (''SKUCount'', ''Product_ID'', Nunique)]) (\<lambda>t1.
     err_bind (sort_values t1 [''TotalProfit''] [False]) (\<lambda>t2.
     let (summary, st1) = new_object st t2;
         st2 = print st1 (Line ''[brand_summary] Brand roll-up ready:'' []);
         st3 = print st2 (Table (head 5 (deref st2 summary)))
     in Inr (summary, st3)))"

text \<open>The enriched table as the insight functions need it: the columns they read are
  there, and the ones they compute with hold numbers (missing included).\<close>

definition numeric_column :: "frame \<Rightarrow> string \<Rightarrow> bool" where
  "numeric_column df c = (c \<in> set (columns df) \<and> (\<forall>r \<in> set (rows df). is_number (lookup r c)))"

definition enriched :: "frame \<Rightarrow> bool" where
  "enriched df =
     ((\<forall>c \<in> set [''Available_Quantity'', ''Total_Sold'', ''Monthly_Sale_Quantity'',
                  ''Average_Stock_Level'', ''Profit'', ''StockValue'', ''ProfitMargin''].
         numeric_column df c) \<and>
      (\<forall>c \<in> set [''Product_ID'', ''Product_Name'', ''Product_Brand'']. c \<in> set (columns df)))"

subsection \<open>Notions used in the proofs\<close>


text \<open>The loader in three steps: the frame after trimming and coercion, the row with its
  three derived cells, and the frame returned.\<close>

definition coerce_cell :: "(string \<Rightarrow> fl option) \<Rightarrow> string list \<Rightarrow> row \<Rightarrow> string \<Rightarrow> row" where
  "coerce_cell parse cols r c =
     (if c \<in> set cols then AList.update c (to_numeric parse (lookup r c)) r else r)"




text \<open>The order that \<^verbatim>\<open>sort_values\<close> sorts the rows by.\<close>

definition row_le :: "bool list \<Rightarrow> string list \<Rightarrow> row \<Rightarrow> row \<Rightarrow> bool" where
  "row_le asc by r1 r2 = lex_le asc (map (numv r1) by) (map (numv r2) by)"

text \<open>The table that \<^verbatim>\<open>low_stock_profitable\<close> returns, in one expression.\<close>

definition low_stock_columns :: "string list" where
  "low_stock_columns =
     [''Product_ID'', ''Product_Name'', ''Available_Quantity'', ''Profit'', ''ProfitMargin'']"

definition low_stock_selected :: "int \<Rightarrow> fl \<Rightarrow> row \<Rightarrow> bool" where
  "low_stock_selected quantity_threshold margin_threshold r =
     (fl_le (numv r ''Available_Quantity'') (fl_of_int quantity_threshold) \<and>
      fl_ge (numv r ''ProfitMargin'') margin_threshold)"

definition low_stock_table :: "frame \<Rightarrow> int \<Rightarrow> fl \<Rightarrow> frame" where
  "low_stock_table df quantity_threshold margin_threshold =
     \<lparr>columns = low_stock_columns,
      rows = stable_sort_by (row_le [False, False] [''ProfitMargin'', ''Profit''])
               (map (project low_stock_columns)
                  (filter (low_stock_selected quantity_threshold margin_threshold) (rows df)))\<rparr>"

text \<open>The table that \<^verbatim>\<open>overstock_low_profit\<close> returns.\<close>

definition overstock_columns :: "string list" where
  "overstock_columns =
     [''Product_ID'', ''Product_Name'', ''Product_Brand'', ''Available_Quantity'',
      ''ProfitMargin'', ''StockValue'']"

definition overstock_selected :: "int \<Rightarrow> fl \<Rightarrow> row \<Rightarrow> bool" where
  "overstock_selected quantity_threshold margin_threshold r =
     (fl_ge (numv r ''Available_Quantity'') (fl_of_int quantity_threshold) \<and>
      fl_le (numv r ''ProfitMargin'') margin_threshold)"

definition overstock_table :: "frame \<Rightarrow> int \<Rightarrow> fl \<Rightarrow> frame" where
  "overstock_table df quantity_threshold margin_threshold =
     \<lparr>columns = overstock_columns,
      rows = stable_sort_by (row_le [False, True] [''Available_Quantity'', ''ProfitMargin''])
               (map (project overstock_columns)
                  (filter (overstock_selected quantity_threshold margin_threshold) (rows df)))\<rparr>"

text \<open>The tables of \<^verbatim>\<open>fast_moving_products\<close>: \<^verbatim>\<open>working_df\<close> after the assignment of
  its SellThroughRate column, and the table returned.\<close>

definition fast_columns :: "string list" where
  "fast_columns =
     [''Product_ID'', ''Product_Name'', ''Monthly_Sale_Quantity'', ''Average_Stock_Level'',
      ''SellThroughRate'', ''ProfitMargin'']"

definition fast_prefilter :: "int \<Rightarrow> row \<Rightarrow> bool" where
  "fast_prefilter min_monthly_sales r =
     (fl_gt (numv r ''Average_Stock_Level'') (Fin 0) \<and>
      fl_ge (numv r ''Monthly_Sale_Quantity'') (fl_of_int min_monthly_sales))"

definition sell_through :: "row \<Rightarrow> fl" where
  "sell_through r = fl_div (numv r ''Total_Sold'') (numv r ''Average_Stock_Level'')"

definition with_rate :: "row \<Rightarrow> row" where
  "with_rate r = AList.update ''SellThroughRate'' (Flt (sell_through r)) r"

definition prefiltered :: "frame \<Rightarrow> int \<Rightarrow> frame" where
  "prefiltered df min_monthly_sales =
     df\<lparr>rows := filter (fast_prefilter min_monthly_sales) (rows df)\<rparr>"

definition working_table :: "frame \<Rightarrow> int \<Rightarrow> frame" where
  "working_table df min_monthly_sales =
     with_column (prefiltered df min_monthly_sales) ''SellThroughRate''
       (map (\<lambda>r. Flt (sell_through r)) (rows (prefiltered df min_monthly_sales)))"

definition fast_table :: "frame \<Rightarrow> fl \<Rightarrow> int \<Rightarrow> frame" where
  "fast_table df velocity_threshold min_monthly_sales =
     \<lparr>columns = fast_columns,
      rows = map (project fast_columns)
               (stable_sort_by (row_le [False] [''SellThroughRate''])
                  (filter (\<lambda>r. fl_ge (numv r ''SellThroughRate'') velocity_threshold)
                     (rows (working_table df min_monthly_sales))))\<rparr>"

text \<open>The table that \<^verbatim>\<open>brand_summary\<close> returns: the rows of a brand, the values of a
  group that are not missing, and the roll-up row of a brand.\<close>

definition brand_columns :: "string list" where
  "brand_columns =
     [''Product_Brand'', ''TotalProfit'', ''TotalStockValue'', ''AvgProfitMargin'', ''SKUCount'']"

definition brand_specs :: "(string \<times> string \<times> aggfunc) list" where
  "brand_specs =
     [(''TotalProfit'', ''Profit'', Sum), (''TotalStockValue'', ''StockValue'', Sum),
      (''AvgProfitMargin'', ''ProfitMargin'', Mean), (''SKUCount'', ''Product_ID'', Nunique)]"

definition brand_group :: "frame \<Rightarrow> cell \<Rightarrow> row list" where
  "brand_group df k = filter (\<lambda>r. lookup r ''Product_Brand'' = k) (rows df)"

definition present :: "fl list \<Rightarrow> fl list" where
  "present xs = filter (\<lambda>x. x \<noteq> NaN) xs"

definition brand_row :: "frame \<Rightarrow> cell \<Rightarrow> row" where
  "brand_row df k =
     [(''Product_Brand'', k),
      (''TotalProfit'', Flt (nansum (map (\<lambda>r. numv r ''Profit'') (brand_group df k)))),
      (''TotalStockValue'', Flt (nansum (map (\<lambda>r. numv r ''StockValue'') (brand_group df k)))),
      (''AvgProfitMargin'', Flt (nanmean (map (\<lambda>r. numv r ''ProfitMargin'') (brand_group df k)))),
      (''SKUCount'',
         Flt (Fin (of_nat (nunique (map (\<lambda>r. lookup r ''Product_ID'') (brand_group df k))))))]"

definition brand_keys :: "frame \<Rightarrow> cell list" where
  "brand_keys df = stable_sort_by cell_le (remdups (map (\<lambda>r. lookup r ''Product_Brand'') (rows df)))"

definition brand_table :: "frame \<Rightarrow> frame" where
  "brand_table df =
     \<lparr>columns = brand_columns,
      rows = stable_sort_by (row_le [False] [''TotalProfit''])
               (map (brand_row df) (brand_keys df))\<rparr>"

subsection \<open>Example inputs\<close>








text \<open>An enriched table of six products, and a state that holds it as its only object.\<close>

definition example_row ::
    "string \<Rightarrow> string \<Rightarrow> cell \<Rightarrow> fl \<Rightarrow> fl \<Rightarrow> fl \<Rightarrow> fl \<Rightarrow> fl \<Rightarrow> fl \<Rightarrow> fl \<Rightarrow> row" where
  "example_row pid name brand qty sold monthly level profit stock margin =
     [(''Product_ID'', Str pid), (''Product_Name'', Str name), (''Product_Brand'', brand),
      (''Available_Quantity'', Flt qty), (''Total_Sold'', Flt sold),
      (''Monthly_Sale_Quantity'', Flt monthly), (''Average_Stock_Level'', Flt level),
      (''Profit'', Flt profit), (''StockValue'', Flt stock), (''ProfitMargin'', Flt margin)]"

definition example_table :: frame where
  "example_table =
     \<lparr>columns = [''Product_ID'', ''Product_Name'', ''Product_Brand'', ''Available_Quantity'',
                 ''Total_Sold'', ''Monthly_Sale_Quantity'', ''Average_Stock_Level'', ''Profit'',
                 ''StockValue'', ''ProfitMargin''],
      rows =
        [example_row ''P1'' ''Widget'' (Str ''Acme'') (Fin 10) (Fin 50) (Fin 50) (Fin 20)
           (Fin 250) (Fin 500) (Fin 100),
         example_row ''P2'' ''Gadget'' (Flt NaN) (Fin 500) (Fin 3) (Fin 45) (Fin 0)
           (Fin 30) (Fin 0) PInf,
         example_row ''P3'' ''Gizmo'' (Str ''Acme'') (Fin 20) (Fin 60) (Fin 60) (Fin 30)
           (Fin 250) (Fin 100) (Fin 100),
         example_row ''P4'' ''Doohickey'' (Str ''Bolt'') (Fin 300) (Fin 10) (Fin 5) NaN
           NaN (Fin 3000) (Fin 5),
         example_row ''P5'' ''Thing'' (Str ''Core'') (Fin 5) (Fin 0) (Fin 40) (Fin 10)
           (Fin 0) (Fin 50) NaN,
         example_row ''P6'' ''Sprocket'' (Str ''Bolt'') (Fin 30) (Fin 8) (Fin 20) (Fin 4)
           (Fin 10) (Fin 60) (Fin 120)]\<rparr>"

definition example_state :: state where
  "example_state = \<lparr>objects = [example_table], stdout = []\<rparr>"

text \<open>The same columns with no rows: what remains of a stock list with no products.\<close>

definition empty_table :: frame where
  "empty_table = example_table\<lparr>rows := []\<rparr>"

definition empty_state :: state where
  "empty_state = \<lparr>objects = [empty_table], stdout = []\<rparr>"


section \<open>Properties\<close>

subsection \<open>Errors and series\<close>

lemma err_bind_simps [simp]:
  "err_bind (Inl e) k = Inl e" "err_bind (Inr x) k = k x"
  by (simp_all add: err_bind_def)

lemma err_bind_Inr_iff: "err_bind m k = Inr y \<longleftrightarrow> (\<exists>x. m = Inr x \<and> k x = Inr y)"
  by (cases m) simp_all

lemma lookup_update: "lookup (AList.update c v r) c' = (if c' = c then v else lookup r c')"
  by (simp add: lookup_def update_conv')


lemma getnum_Inr_iff:
  "getnum df c = Inr xs \<longleftrightarrow>
     c \<in> set (columns df) \<and> (\<forall>r \<in> set (rows df). is_number (lookup r c)) \<and>
     xs = map (\<lambda>r. numv r c) (rows df)"
  by (auto simp: getnum_def getitem_def as_numeric_def numv_def list_all_iff comp_def)

lemma getnum_length: "getnum df c = Inr xs \<Longrightarrow> length xs = length (rows df)"
  by (auto simp: getnum_Inr_iff)

lemma map2_map_same: "map2 f (map g xs) (map h xs) = map (\<lambda>x. f (g x) (h x)) xs"
  by (induction xs) simp_all

lemma map2_same_map: "map2 f xs (map h xs) = map (\<lambda>x. f x (h x)) xs"
  by (induction xs) simp_all

lemma columns_with_column:
  "columns (with_column df c s) = (if c \<in> set (columns df) then columns df else columns df @ [c])"
  by (simp add: with_column_def)

lemma length_rows_with_column [simp]:
  "length (rows (with_column df c s)) = min (length (rows df)) (length s)"
  by (simp add: with_column_def)

lemma rows_with_column_map:
  "rows (with_column df c (map g (rows df))) = map (\<lambda>r. AList.update c (g r) r) (rows df)"
  unfolding with_column_def by (simp only: map2_same_map) simp

lemma setitem_Inr_iff:
  "setitem df c s = Inr df' \<longleftrightarrow> length s = length (rows df) \<and> df' = with_column df c s"
  by (auto simp: setitem_def)



subsection \<open>The loader\<close>

lemma columns_map_column [simp]: "columns (map_column g df c) = columns df"
  by (simp add: map_column_def)

lemma columns_foldl_map_column [simp]: "columns (foldl (map_column g) df cs) = columns df"
  by (induction cs arbitrary: df) simp_all

lemma columns_strip_strings [simp]: "columns (strip_strings df) = columns df"
  by (simp add: strip_strings_def Let_def)

lemma length_rows_foldl_map_column [simp]:
  "length (rows (foldl (map_column g) df cs)) = length (rows df)"
  by (induction cs arbitrary: df) (simp_all add: map_column_def)

lemma length_rows_strip_strings [simp]: "length (rows (strip_strings df)) = length (rows df)"
  by (simp add: strip_strings_def Let_def)

lemma columns_coerce_column [simp]: "columns (coerce_column parse df c) = columns df"
  by (simp add: coerce_column_def)

lemma columns_foldl_coerce [simp]: "columns (foldl (coerce_column parse) df cs) = columns df"
  by (induction cs arbitrary: df) simp_all

lemma rows_foldl_coerce:
  "rows (foldl (coerce_column parse) df cs) =
     map (\<lambda>r. foldl (coerce_cell parse (columns df)) r cs) (rows df)"
proof (induction cs arbitrary: df)
  case Nil
  show ?case by simp
next
  case (Cons c cs)
  have "rows (coerce_column parse df c) = map (\<lambda>r. coerce_cell parse (columns df) r c) (rows df)"
    by (simp add: coerce_column_def map_column_def coerce_cell_def)
  with Cons.IH [of "coerce_column parse df c"] show ?case
    by (simp add: comp_def)
qed

lemma to_numeric_idem [simp]: "to_numeric parse (to_numeric parse v) = to_numeric parse v"
  by (cases v) (simp_all split: option.splits)

lemma is_number_to_numeric [simp]: "is_number (to_numeric parse v)"
  by (cases v) (simp_all split: option.splits)


lemma length_rows_foldl_coerce [simp]:
  "length (rows (foldl (coerce_column parse) df cs)) = length (rows df)"
  by (simp add: rows_foldl_coerce)

















subsection \<open>The derived columns\<close>




subsection \<open>The errors of the loader\<close>




subsection \<open>Stable sorting\<close>

lemma mset_insort_by [simp]: "mset (insort_by le x xs) = add_mset x (mset xs)"
  by (induction xs) simp_all

lemma mset_stable_sort_by [simp]: "mset (stable_sort_by le xs) = mset xs"
  by (induction xs) (simp_all add: stable_sort_by_def)

lemma set_stable_sort_by [simp]: "set (stable_sort_by le xs) = set xs"
  using mset_stable_sort_by [of le xs] by (metis set_mset_mset)

lemma length_stable_sort_by [simp]: "length (stable_sort_by le xs) = length xs"
  using mset_stable_sort_by [of le xs] by (metis size_mset)

lemma stable_sort_by_Nil_iff [simp]: "stable_sort_by le xs = [] \<longleftrightarrow> xs = []"
  using length_stable_sort_by [of le xs] by (metis length_0_conv)

lemma set_insort_by [simp]: "set (insort_by le x xs) = insert x (set xs)"
  using mset_insort_by [of le x xs] by (metis set_mset_add_mset_insert set_mset_mset)

lemma sorted_insort_by:
  assumes total: "\<And>a b. le a b \<or> le b a" and trans: "\<And>a b c. le a b \<Longrightarrow> le b c \<Longrightarrow> le a c"
  shows "sorted_wrt le xs \<Longrightarrow> sorted_wrt le (insort_by le x xs)"
proof (induction xs)
  case Nil
  show ?case by simp
next
  case (Cons y ys)
  show ?case
  proof (cases "le x y")
    case True
    with Cons.prems trans have "\<forall>z \<in> set (y # ys). le x z" by auto
    with True Cons.prems show ?thesis by simp
  next
    case False
    with total have "le y x" by blast
    with False Cons show ?thesis by auto
  qed
qed

lemma sorted_stable_sort_by:
  assumes "\<And>a b. le a b \<or> le b a" and "\<And>a b c. le a b \<Longrightarrow> le b c \<Longrightarrow> le a c"
  shows "sorted_wrt le (stable_sort_by le xs)"
proof (induction xs)
  case Nil
  show ?case by (simp add: stable_sort_by_def)
next
  case (Cons x xs)
  have "stable_sort_by le (x # xs) = insort_by le x (stable_sort_by le xs)"
    by (simp add: stable_sort_by_def)
  with Cons sorted_insort_by [of le, OF assms] show ?case by simp
qed

lemma filter_insort_by_in:
  assumes "Q x" and "\<And>y. Q y \<Longrightarrow> le x y"
  shows "filter Q (insort_by le x xs) = x # filter Q xs"
  using assms by (induction xs) auto

lemma filter_insort_by_out:
  assumes "\<not> Q x"
  shows "filter Q (insort_by le x xs) = filter Q xs"
  using assms by (induction xs) auto

lemma stable_sort_by_stable:
  assumes "\<And>x y. Q x \<Longrightarrow> Q y \<Longrightarrow> le x y"
  shows "filter Q (stable_sort_by le xs) = filter Q xs"
proof (induction xs)
  case Nil
  show ?case by (simp add: stable_sort_by_def)
next
  case (Cons x xs)
  have eq: "stable_sort_by le (x # xs) = insort_by le x (stable_sort_by le xs)"
    by (simp add: stable_sort_by_def)
  show ?case
  proof (cases "Q x")
    case True
    with assms have "\<And>y. Q y \<Longrightarrow> le x y" by blast
    from filter_insort_by_in [of Q x le, OF True this] Cons True show ?thesis
      unfolding eq by simp
  next
    case False
    from filter_insort_by_out [of Q x le, OF False] Cons False show ?thesis
      unfolding eq by simp
  qed
qed

subsection \<open>The order of sort keys\<close>

lemma fl_less_trans: "fl_less x y \<Longrightarrow> fl_less y z \<Longrightarrow> fl_less x z"
  by (cases x; cases y; cases z) auto

lemma fl_less_irrefl [simp]: "\<not> fl_less x x"
  by (cases x) auto

lemma fl_less_cases: "x \<noteq> NaN \<Longrightarrow> y \<noteq> NaN \<Longrightarrow> fl_less x y \<or> x = y \<or> fl_less y x"
  by (cases x; cases y) auto

lemma key_before_trans: "key_before a x y \<Longrightarrow> key_before a y z \<Longrightarrow> key_before a x z"
  by (auto simp: key_before_def dest: fl_less_trans split: if_splits)

lemma key_before_cases: "key_before a x y \<or> x = y \<or> key_before a y x"
  using fl_less_cases [of x y] by (auto simp: key_before_def)

lemma row_le_refl: "row_le asc by r r"
  unfolding row_le_def by (induction "by" arbitrary: asc) (case_tac asc; simp)+

lemma row_le_same_keys: "map (numv r1) by = map (numv r2) by \<Longrightarrow> row_le asc by r1 r2"
proof -
  assume eq: "map (numv r1) by = map (numv r2) by"
  from row_le_refl [of asc "by" r2] show ?thesis
    unfolding row_le_def eq .
qed

lemma row_le_total: "row_le asc by r1 r2 \<or> row_le asc by r2 r1"
  unfolding row_le_def
proof (induction "by" arbitrary: asc)
  case Nil
  show ?case by simp
next
  case (Cons c cs)
  show ?case
  proof (cases asc)
    case Nil
    then show ?thesis by simp
  next
    case (Cons a as)
    with Cons.IH [of as] key_before_cases [of a "numv r1 c" "numv r2 c"] show ?thesis by auto
  qed
qed

lemma row_le_trans: "row_le asc by r1 r2 \<Longrightarrow> row_le asc by r2 r3 \<Longrightarrow> row_le asc by r1 r3"
  unfolding row_le_def
proof (induction "by" arbitrary: asc)
  case Nil
  show ?case by simp
next
  case (Cons c cs)
  show ?case
  proof (cases asc)
    case Nil
    then show ?thesis by simp
  next
    case (Cons a as)
    with Cons.prems Cons.IH [of as] show ?thesis
      by (auto dest: key_before_trans)
  qed
qed

lemma sorted_rows: "sorted_wrt (row_le asc by) (stable_sort_by (row_le asc by) rs)"
proof (rule sorted_stable_sort_by)
  show "row_le asc by a b \<or> row_le asc by b a" for a b
    by (rule row_le_total)
  show "row_le asc by a b \<Longrightarrow> row_le asc by b c \<Longrightarrow> row_le asc by a c" for a b c
    by (rule row_le_trans)
qed

lemma stable_rows:
  "filter (\<lambda>r. map (numv r) by = k) (stable_sort_by (row_le asc by) rs) =
   filter (\<lambda>r. map (numv r) by = k) rs"
  by (rule stable_sort_by_stable) (simp add: row_le_same_keys)

subsection \<open>Frames\<close>

lemma getnum_numeric:
  "numeric_column df c \<Longrightarrow> getnum df c = Inr (map (\<lambda>r. numv r c) (rows df))"
  by (simp add: getnum_Inr_iff numeric_column_def)


lemma select_rows_map: "select_rows (map P xs) xs = filter P xs"
  by (induction xs) (simp_all add: select_rows_def)

lemma mask_and:
  "map2 (\<and>) (map p (map f xs)) (map q (map g xs)) = map (\<lambda>x. p (f x) \<and> q (g x)) xs"
  by (induction xs) simp_all

lemma filter_rows_map:
  "filter_rows df (map P (rows df)) = Inr (df\<lparr>rows := filter P (rows df)\<rparr>)"
  by (simp add: filter_rows_def select_rows_map)

lemma select_columns_Inr:
  "set cs \<subseteq> set (columns df) \<Longrightarrow>
     select_columns df cs = Inr \<lparr>columns = cs, rows = map (project cs) (rows df)\<rparr>"
proof -
  assume "set cs \<subseteq> set (columns df)"
  then have "filter (\<lambda>c. c \<notin> set (columns df)) cs = []"
    by (auto simp: filter_empty_conv)
  then show ?thesis by (simp add: select_columns_def)
qed

lemma loc_map:
  "set cs \<subseteq> set (columns df) \<Longrightarrow>
     loc df (map P (rows df)) cs =
       Inr \<lparr>columns = cs, rows = map (project cs) (filter P (rows df))\<rparr>"
  by (simp add: loc_def filter_rows_map select_columns_Inr)

lemma map_of_project: "c \<in> set cs \<Longrightarrow> map_of (project cs r) c = Some (lookup r c)"
  unfolding project_def by (induction cs) auto

lemma lookup_project: "c \<in> set cs \<Longrightarrow> lookup (project cs r) c = lookup r c"
  by (simp add: lookup_def [of "project cs r"] map_of_project)

lemma numv_project: "c \<in> set cs \<Longrightarrow> numv (project cs r) c = numv r c"
  by (simp add: numv_def lookup_project)

lemma row_getitem_project: "c \<in> set cs \<Longrightarrow> row_getitem (project cs r) c = Inr (lookup r c)"
  by (simp add: row_getitem_def map_of_project)

lemma numeric_column_projected:
  assumes "c \<in> set cs" and "\<forall>r \<in> set rs. is_number (lookup r c)"
  shows "numeric_column \<lparr>columns = cs, rows = map (project cs) rs\<rparr> c"
  using assms by (simp add: numeric_column_def lookup_project)

lemma numeric_column_rows_subset:
  assumes "numeric_column df c" and "set rs \<subseteq> set (rows df)"
  shows "numeric_column (df\<lparr>rows := rs\<rparr>) c"
  using assms by (auto simp: numeric_column_def)

lemma sequence_err_getnum:
  "\<forall>c \<in> set by. numeric_column df c \<Longrightarrow>
     sequence_err (map (getnum df) by) = Inr (map (\<lambda>c. map (\<lambda>r. numv r c) (rows df)) by)"
  by (induction "by") (simp_all add: getnum_numeric)

lemma sort_values_Inr:
  "\<forall>c \<in> set by. numeric_column df c \<Longrightarrow>
     sort_values df by asc = Inr (df\<lparr>rows := stable_sort_by (row_le asc by) (rows df)\<rparr>)"
  by (simp add: sort_values_def sequence_err_getnum row_le_def [abs_def])

subsection \<open>Objects\<close>

lemma objects_print [simp]: "objects (print st l) = objects st"
  by (simp add: print_def)

lemma deref_print [simp]: "deref (print st l) a = deref st a"
  by (simp add: deref_def)

lemma new_object_eq:
  "new_object st df = (length (objects st), st\<lparr>objects := objects st @ [df]\<rparr>)"
  by (simp add: new_object_def)

lemma deref_new [simp]: "deref (st\<lparr>objects := objects st @ [df]\<rparr>) (length (objects st)) = df"
  by (simp add: deref_def)

lemma deref_old [simp]:
  "a < length (objects st) \<Longrightarrow> deref (st\<lparr>objects := objects st @ [df]\<rparr>) a = deref st a"
  by (simp add: deref_def nth_append)

subsection \<open>Low stock, profitable\<close>

lemma enriched_numeric:
  assumes "enriched df"
  shows "numeric_column df ''Available_Quantity''" "numeric_column df ''Total_Sold''"
    "numeric_column df ''Monthly_Sale_Quantity''" "numeric_column df ''Average_Stock_Level''"
    "numeric_column df ''Profit''" "numeric_column df ''StockValue''"
    "numeric_column df ''ProfitMargin''"
  using assms unfolding enriched_def by simp_all

lemma enriched_columns:
  assumes "enriched df"
  shows "''Product_ID'' \<in> set (columns df)" "''Product_Name'' \<in> set (columns df)"
    "''Product_Brand'' \<in> set (columns df)" "''Available_Quantity'' \<in> set (columns df)"
    "''Total_Sold'' \<in> set (columns df)" "''Monthly_Sale_Quantity'' \<in> set (columns df)"
    "''Average_Stock_Level'' \<in> set (columns df)" "''Profit'' \<in> set (columns df)"
    "''StockValue'' \<in> set (columns df)" "''ProfitMargin'' \<in> set (columns df)"
  using assms unfolding enriched_def numeric_column_def by simp_all

lemma numeric_columnD: "numeric_column df c \<Longrightarrow> r \<in> set (rows df) \<Longrightarrow> is_number (lookup r c)"
  by (simp add: numeric_column_def)

lemma low_stock_profitable_result:
  assumes en: "enriched (deref st df)"
  shows "\<exists>st'. low_stock_profitable st df qt mt = Inr (length (objects st), st') \<and>
           objects st' = objects st @ [low_stock_table (deref st df) qt mt]"
proof -
  define d where "d = deref st df"
  define R where "R = rows d"
  define S where "S = filter (low_stock_selected qt mt) R"
  define T where "T = low_stock_table d qt mt"
  note n = enriched_numeric [OF en [folded d_def]]
  note c = enriched_columns [OF en [folded d_def]]
  have g1: "getnum d ''Available_Quantity'' = Inr (map (\<lambda>r. numv r ''Available_Quantity'') R)"
    and g2: "getnum d ''ProfitMargin'' = Inr (map (\<lambda>r. numv r ''ProfitMargin'') R)"
    unfolding R_def by (rule getnum_numeric, rule n)+
  have m: "map2 (\<and>) (map (\<lambda>x. fl_le x (fl_of_int qt)) (map (\<lambda>r. numv r ''Available_Quantity'') R))
       (map (\<lambda>x. fl_ge x mt) (map (\<lambda>r. numv r ''ProfitMargin'') R)) =
     map (low_stock_selected qt mt) R"
    unfolding mask_and low_stock_selected_def ..
  have sub: "set low_stock_columns \<subseteq> set (columns d)"
    using c by (simp add: low_stock_columns_def)
  have l: "loc d (map (low_stock_selected qt mt) R) low_stock_columns =
      Inr \<lparr>columns = low_stock_columns, rows = map (project low_stock_columns) S\<rparr>"
    unfolding R_def S_def by (rule loc_map [OF sub])
  have num: "\<forall>c \<in> set [''ProfitMargin'', ''Profit''].
      numeric_column \<lparr>columns = low_stock_columns, rows = map (project low_stock_columns) S\<rparr> c"
  proof -
    have "\<forall>r \<in> set S. is_number (lookup r ''ProfitMargin'')"
      and "\<forall>r \<in> set S. is_number (lookup r ''Profit'')"
      using numeric_columnD [OF n(7)] numeric_columnD [OF n(5)] by (auto simp: S_def R_def)
    moreover have "''ProfitMargin'' \<in> set low_stock_columns" "''Profit'' \<in> set low_stock_columns"
      by (simp_all add: low_stock_columns_def)
    ultimately show ?thesis by (simp add: numeric_column_projected)
  qed
  have s: "sort_values \<lparr>columns = low_stock_columns, rows = map (project low_stock_columns) S\<rparr>
      [''ProfitMargin'', ''Profit''] [False, False] = Inr T"
    using sort_values_Inr [OF num, of "[False, False]"]
    by (simp add: T_def low_stock_table_def S_def R_def)
  have colsT: "columns T \<noteq> []"
    by (simp add: T_def low_stock_table_def low_stock_columns_def)
  have top: "\<exists>r0. rows T ! 0 = project low_stock_columns r0" if "rows T \<noteq> []"
  proof -
    from that have "rows T ! 0 \<in> set (rows T)" by simp
    then show ?thesis by (auto simp: T_def low_stock_table_def)
  qed
  have tail: "\<exists>name m q. row_getitem (rows T ! 0) ''Product_Name'' = Inr name \<and>
      row_getitem (rows T ! 0) ''ProfitMargin'' = Inr m \<and>
      row_getitem (rows T ! 0) ''Available_Quantity'' = Inr q" if "rows T \<noteq> []"
  proof -
    from top [OF that] obtain r0 where r0: "rows T ! 0 = project low_stock_columns r0" ..
    show ?thesis unfolding r0
      by (simp add: row_getitem_project low_stock_columns_def)
  qed
  have body: "low_stock_profitable st df qt mt =
     (let (insights, st1) = new_object st (reset_index_drop T);
         st2 = print st1 (Line ''[low_stock_profitable]''
                 [count_cell (deref st1 insights), Flt (fl_of_int qt), Flt mt])
     in
     if \<not> empty (deref st2 insights) then
       err_bind (iloc (deref st2 insights) 0) (\<lambda>top.
       err_bind (row_getitem top ''Product_Name'') (\<lambda>name.
       err_bind (row_getitem top ''ProfitMargin'') (\<lambda>m.
       err_bind (row_getitem top ''Available_Quantity'') (\<lambda>q.
       Inr (insights, print st2 (Line ''Quick tip'' [name, m, q]))))))
     else Inr (insights, st2))"
    unfolding low_stock_profitable_def d_def [symmetric]
    by (simp only: g1 g2 err_bind_simps Let_def m l [unfolded low_stock_columns_def]
        s [unfolded low_stock_columns_def])
  show ?thesis
  proof (cases "rows T = []")
    case True
    then show ?thesis
      unfolding body d_def [symmetric] T_def [symmetric]
      by (simp add: new_object_eq reset_index_drop_def empty_def print_def Let_def deref_def)
  next
    case False
    from tail [OF False] obtain name m q where
      "row_getitem (rows T ! 0) ''Product_Name'' = Inr name"
      "row_getitem (rows T ! 0) ''ProfitMargin'' = Inr m"
      "row_getitem (rows T ! 0) ''Available_Quantity'' = Inr q" by blast
    with False colsT show ?thesis
      unfolding body d_def [symmetric] T_def [symmetric]
      by (simp add: new_object_eq reset_index_drop_def empty_def iloc_def print_def Let_def deref_def)
  qed
qed

lemma key_before_desc: "x \<noteq> NaN \<Longrightarrow> y \<noteq> NaN \<Longrightarrow> key_before False x y = fl_gt x y"
  by (simp add: key_before_def fl_gt_def)

lemma key_before_asc: "x \<noteq> NaN \<Longrightarrow> y \<noteq> NaN \<Longrightarrow> key_before True x y = fl_less x y"
  by (simp add: key_before_def)

lemma key_before_desc_or_eq:
  "key_before False x y \<or> x = y \<longleftrightarrow> fl_gt x y \<or> x = y \<or> y = NaN"
  by (auto simp: key_before_def fl_gt_def)

lemma fl_ge_not_NaN: "fl_ge x y \<Longrightarrow> x \<noteq> NaN"
  by (auto simp: fl_ge_def fl_le_def)

lemma fl_le_not_NaN: "fl_le x y \<Longrightarrow> x \<noteq> NaN"
  by (auto simp: fl_le_def)

text \<open>
  C2. On an enriched table, \<^verbatim>\<open>low_stock_profitable\<close> returns a table with the columns
  Product_ID, Product_Name, Available_Quantity, Profit and ProfitMargin whose rows are
  exactly the projections of the input rows with Available_Quantity at most the quantity
  threshold and ProfitMargin at least the margin threshold (so no row with a missing
  margin). The rows are in descending order of ProfitMargin, ties in descending order of
  Profit (a missing Profit last), and rows equal on both keys keep their source order.
\<close>

theorem low_stock_profitable_correct:
  assumes "enriched (deref st df)"
  shows "\<exists>out st'. low_stock_profitable st df quantity_threshold margin_threshold = Inr (out, st') \<and>
     columns (deref st' out) =
       [''Product_ID'', ''Product_Name'', ''Available_Quantity'', ''Profit'', ''ProfitMargin''] \<and>
     mset (rows (deref st' out)) =
       mset (map (project [''Product_ID'', ''Product_Name'', ''Available_Quantity'', ''Profit'',
                           ''ProfitMargin''])
              (filter (\<lambda>r. fl_le (numv r ''Available_Quantity'') (fl_of_int quantity_threshold) \<and>
                            fl_ge (numv r ''ProfitMargin'') margin_threshold)
                 (rows (deref st df)))) \<and>
     (\<forall>r \<in> set (rows (deref st' out)). numv r ''ProfitMargin'' \<noteq> NaN) \<and>
     sorted_wrt (\<lambda>a b. fl_gt (numv a ''ProfitMargin'') (numv b ''ProfitMargin'') \<or>
                   (numv a ''ProfitMargin'' = numv b ''ProfitMargin'' \<and>
                    (fl_gt (numv a ''Profit'') (numv b ''Profit'') \<or>
                     numv a ''Profit'' = numv b ''Profit'' \<or> numv b ''Profit'' = NaN)))
       (rows (deref st' out)) \<and>
     (\<forall>m p. filter (\<lambda>r. numv r ''ProfitMargin'' = m \<and> numv r ''Profit'' = p)
               (rows (deref st' out)) =
            filter (\<lambda>r. numv r ''ProfitMargin'' = m \<and> numv r ''Profit'' = p)
               (map (project [''Product_ID'', ''Product_Name'', ''Available_Quantity'', ''Profit'',
                              ''ProfitMargin''])
                  (filter (\<lambda>r. fl_le (numv r ''Available_Quantity'') (fl_of_int quantity_threshold) \<and>
                                fl_ge (numv r ''ProfitMargin'') margin_threshold)
                     (rows (deref st df)))))"
proof -
  define d where "d = deref st df"
  define S where "S = map (project low_stock_columns)
      (filter (low_stock_selected quantity_threshold margin_threshold) (rows d))"
  define T where "T = low_stock_table d quantity_threshold margin_threshold"
  from low_stock_profitable_result [OF assms, of quantity_threshold margin_threshold]
  obtain st' where
    run: "low_stock_profitable st df quantity_threshold margin_threshold =
        Inr (length (objects st), st')" and
    obj: "objects st' = objects st @ [T]"
    unfolding T_def d_def by blast
  have out: "deref st' (length (objects st)) = T"
    by (simp add: deref_def obj)
  have rowsT: "rows T = stable_sort_by (row_le [False, False] [''ProfitMargin'', ''Profit'']) S"
    and colsT: "columns T = low_stock_columns"
    by (simp_all add: T_def low_stock_table_def S_def)
  have S_margin: "numv r ''ProfitMargin'' \<noteq> NaN" if "r \<in> set S" for r
  proof -
    from that obtain r0 where r0: "r = project low_stock_columns r0"
      "low_stock_selected quantity_threshold margin_threshold r0"
      by (auto simp: S_def)
    have "numv r ''ProfitMargin'' = numv r0 ''ProfitMargin''"
      unfolding r0(1) by (rule numv_project) (simp add: low_stock_columns_def)
    with r0(2) show ?thesis
      by (auto simp: low_stock_selected_def dest: fl_ge_not_NaN)
  qed
  have sorted: "sorted_wrt (\<lambda>a b. fl_gt (numv a ''ProfitMargin'') (numv b ''ProfitMargin'') \<or>
                   (numv a ''ProfitMargin'' = numv b ''ProfitMargin'' \<and>
                    (fl_gt (numv a ''Profit'') (numv b ''Profit'') \<or>
                     numv a ''Profit'' = numv b ''Profit'' \<or> numv b ''Profit'' = NaN)))
       (rows T)"
  proof (rule sorted_wrt_mono_rel [OF _ sorted_rows [of "[False, False]" "[''ProfitMargin'', ''Profit'']" S, folded rowsT]])
    fix a b
    assume a: "a \<in> set (rows T)" and b: "b \<in> set (rows T)"
      and le: "row_le [False, False] [''ProfitMargin'', ''Profit''] a b"
    from a b have na: "numv a ''ProfitMargin'' \<noteq> NaN" and nb: "numv b ''ProfitMargin'' \<noteq> NaN"
      by (simp_all add: rowsT S_margin)
    from le have "key_before False (numv a ''ProfitMargin'') (numv b ''ProfitMargin'') \<or>
        (numv a ''ProfitMargin'' = numv b ''ProfitMargin'' \<and>
          (key_before False (numv a ''Profit'') (numv b ''Profit'') \<or>
           numv a ''Profit'' = numv b ''Profit''))"
      by (simp add: row_le_def)
    then show "fl_gt (numv a ''ProfitMargin'') (numv b ''ProfitMargin'') \<or>
                   (numv a ''ProfitMargin'' = numv b ''ProfitMargin'' \<and>
                    (fl_gt (numv a ''Profit'') (numv b ''Profit'') \<or>
                     numv a ''Profit'' = numv b ''Profit'' \<or> numv b ''Profit'' = NaN))"
      unfolding key_before_desc [OF na nb] key_before_desc_or_eq .
  qed
  have stable: "filter (\<lambda>r. numv r ''ProfitMargin'' = m \<and> numv r ''Profit'' = p) (rows T) =
      filter (\<lambda>r. numv r ''ProfitMargin'' = m \<and> numv r ''Profit'' = p) S" for m p
    using stable_rows [of "[''ProfitMargin'', ''Profit'']" "[m, p]" "[False, False]" S]
    by (simp add: rowsT)
  have "columns T =
       [''Product_ID'', ''Product_Name'', ''Available_Quantity'', ''Profit'', ''ProfitMargin'']"
    by (simp add: colsT low_stock_columns_def)
  moreover have "mset (rows T) = mset S" by (simp add: rowsT)
  moreover have "\<forall>r \<in> set (rows T). numv r ''ProfitMargin'' \<noteq> NaN"
    by (simp add: rowsT S_margin)
  ultimately show ?thesis
    using run sorted stable
    unfolding out [symmetric] S_def d_def low_stock_columns_def low_stock_selected_def
    by blast
qed

lemma example_enriched: "enriched (deref example_state 0)"
  by (simp add: deref_def example_state_def enriched_def numeric_column_def example_table_def
      example_row_def lookup_def)

lemma example_low_stock:
  "map (\<lambda>r. lookup r ''Product_ID'') (rows (low_stock_table example_table 60 (Fin 20))) =
     [Str ''P6'', Str ''P1'', Str ''P3'']"
  by (simp add: low_stock_table_def low_stock_selected_def example_table_def example_row_def
      numv_def lookup_def project_def low_stock_columns_def stable_sort_by_def row_le_def
      key_before_def fl_le_def fl_ge_def fl_of_int_def)

theorem low_stock_profitable_correct_witness:
  "enriched (deref example_state 0) \<and>
   (\<exists>out st'. low_stock_profitable example_state 0 60 (Fin 20) = Inr (out, st') \<and>
      columns (deref st' out) =
        [''Product_ID'', ''Product_Name'', ''Available_Quantity'', ''Profit'', ''ProfitMargin''] \<and>
      (\<forall>r \<in> set (rows (deref st' out)). numv r ''ProfitMargin'' \<noteq> NaN) \<and>
      map (\<lambda>r. lookup r ''Product_ID'') (rows (deref st' out)) =
        [Str ''P6'', Str ''P1'', Str ''P3''])"
proof -
  from low_stock_profitable_correct [OF example_enriched, of 60 "Fin 20"]
  obtain out st' where
    run: "low_stock_profitable example_state 0 60 (Fin 20) = Inr (out, st')" and
    cols: "columns (deref st' out) =
        [''Product_ID'', ''Product_Name'', ''Available_Quantity'', ''Profit'', ''ProfitMargin'']" and
    margins: "\<forall>r \<in> set (rows (deref st' out)). numv r ''ProfitMargin'' \<noteq> NaN"
    by blast
  from low_stock_profitable_result [OF example_enriched, of 60 "Fin 20"] run
  have "out = length (objects example_state)"
    and "objects st' = objects example_state @ [low_stock_table (deref example_state 0) 60 (Fin 20)]"
    by auto
  then have "deref st' out = low_stock_table example_table 60 (Fin 20)"
    by (simp add: deref_def example_state_def)
  with example_low_stock have "map (\<lambda>r. lookup r ''Product_ID'') (rows (deref st' out)) =
        [Str ''P6'', Str ''P1'', Str ''P3'']" by simp
  with run cols margins have "\<exists>out st'. low_stock_profitable example_state 0 60 (Fin 20) = Inr (out, st') \<and>
      columns (deref st' out) =
        [''Product_ID'', ''Product_Name'', ''Available_Quantity'', ''Profit'', ''ProfitMargin''] \<and>
      (\<forall>r \<in> set (rows (deref st' out)). numv r ''ProfitMargin'' \<noteq> NaN) \<and>
      map (\<lambda>r. lookup r ''Product_ID'') (rows (deref st' out)) =
        [Str ''P6'', Str ''P1'', Str ''P3'']"
    by (intro exI [of _ out] exI [of _ st'] conjI)
  with example_enriched show ?thesis by (intro conjI)
qed

subsection \<open>Overstock, low profit\<close>

lemma numeric_column_sorted:
  assumes "numeric_column \<lparr>columns = cs, rows = rs\<rparr> c"
  shows "numeric_column \<lparr>columns = cs, rows = stable_sort_by le rs\<rparr> c"
  using assms by (simp add: numeric_column_def)

lemma overstock_low_profit_result:
  assumes en: "enriched (deref st df)"
  shows "\<exists>st'. overstock_low_profit st df qt mt = Inr (length (objects st), st') \<and>
           objects st' = objects st @ [overstock_table (deref st df) qt mt]"
proof -
  define d where "d = deref st df"
  define R where "R = rows d"
  define S where "S = filter (overstock_selected qt mt) R"
  define T where "T = overstock_table d qt mt"
  note n = enriched_numeric [OF en [folded d_def]]
  note c = enriched_columns [OF en [folded d_def]]
  have g1: "getnum d ''Available_Quantity'' = Inr (map (\<lambda>r. numv r ''Available_Quantity'') R)"
    and g2: "getnum d ''ProfitMargin'' = Inr (map (\<lambda>r. numv r ''ProfitMargin'') R)"
    unfolding R_def by (rule getnum_numeric, rule n)+
  have m: "map2 (\<and>) (map (\<lambda>x. fl_ge x (fl_of_int qt)) (map (\<lambda>r. numv r ''Available_Quantity'') R))
       (map (\<lambda>x. fl_le x mt) (map (\<lambda>r. numv r ''ProfitMargin'') R)) =
     map (overstock_selected qt mt) R"
    unfolding mask_and overstock_selected_def ..
  have sub: "set overstock_columns \<subseteq> set (columns d)"
    using c by (simp add: overstock_columns_def)
  have l: "loc d (map (overstock_selected qt mt) R) overstock_columns =
      Inr \<lparr>columns = overstock_columns, rows = map (project overstock_columns) S\<rparr>"
    unfolding R_def S_def by (rule loc_map [OF sub])
  have nS: "\<forall>r \<in> set S. is_number (lookup r ''Available_Quantity'')"
    "\<forall>r \<in> set S. is_number (lookup r ''ProfitMargin'')"
    "\<forall>r \<in> set S. is_number (lookup r ''StockValue'')"
    using numeric_columnD [OF n(1)] numeric_columnD [OF n(7)] numeric_columnD [OF n(6)]
    by (auto simp: S_def R_def)
  have mem: "''Available_Quantity'' \<in> set overstock_columns"
    "''ProfitMargin'' \<in> set overstock_columns" "''StockValue'' \<in> set overstock_columns"
    by (simp_all add: overstock_columns_def)
  have num: "\<forall>c \<in> set [''Available_Quantity'', ''ProfitMargin''].
      numeric_column \<lparr>columns = overstock_columns, rows = map (project overstock_columns) S\<rparr> c"
    using nS mem by (simp add: numeric_column_projected)
  have s: "sort_values \<lparr>columns = overstock_columns, rows = map (project overstock_columns) S\<rparr>
      [''Available_Quantity'', ''ProfitMargin''] [False, True] = Inr T"
    using sort_values_Inr [OF num, of "[False, True]"]
    by (simp add: T_def overstock_table_def S_def R_def)
  have colsT: "columns T \<noteq> []"
    by (simp add: T_def overstock_table_def overstock_columns_def)
  have "numeric_column T ''StockValue''"
    unfolding T_def overstock_table_def S_def [symmetric, unfolded R_def]
    by (rule numeric_column_sorted) (simp add: numeric_column_projected nS mem)
  then have sv: "getnum T ''StockValue'' = Inr (map (\<lambda>r. numv r ''StockValue'') (rows T))"
    by (rule getnum_numeric)
  have body: "overstock_low_profit st df qt mt =
     (let (insights, st1) = new_object st (reset_index_drop T);
         st2 = print st1 (Line ''[overstock_low_profit]''
                 [count_cell (deref st1 insights), Flt (fl_of_int qt), Flt mt])
     in
     if \<not> empty (deref st2 insights) then
       err_bind (getnum (deref st2 insights) ''StockValue'') (\<lambda>sv.
       let stuck_value = nansum sv
       in Inr (insights, print st2 (Line ''Inventory tied up'' [Flt stuck_value])))
     else Inr (insights, st2))"
    unfolding overstock_low_profit_def d_def [symmetric]
    by (simp only: g1 g2 err_bind_simps Let_def m l [unfolded overstock_columns_def]
        s [unfolded overstock_columns_def])
  show ?thesis
    unfolding body d_def [symmetric] T_def [symmetric]
    by (simp add: new_object_eq reset_index_drop_def empty_def print_def Let_def deref_def sv)
qed

lemma key_before_asc_or_eq:
  "x \<noteq> NaN \<Longrightarrow> y \<noteq> NaN \<Longrightarrow> key_before True x y \<or> x = y \<longleftrightarrow> fl_le x y"
  by (auto simp: key_before_def fl_le_def)

text \<open>
  C7. On an enriched table, \<^verbatim>\<open>overstock_low_profit\<close> returns a table with the columns
  Product_ID, Product_Name, Product_Brand, Available_Quantity, ProfitMargin and StockValue
  whose rows are exactly the projections of the input rows with Available_Quantity at
  least the quantity threshold and ProfitMargin at most the margin threshold (so no row
  with a missing margin), in descending order of Available_Quantity, ties in ascending
  order of ProfitMargin.
\<close>

theorem overstock_low_profit_correct:
  assumes "enriched (deref st df)"
  shows "\<exists>out st'. overstock_low_profit st df quantity_threshold margin_threshold = Inr (out, st') \<and>
     columns (deref st' out) =
       [''Product_ID'', ''Product_Name'', ''Product_Brand'', ''Available_Quantity'',
        ''ProfitMargin'', ''StockValue''] \<and>
     mset (rows (deref st' out)) =
       mset (map (project [''Product_ID'', ''Product_Name'', ''Product_Brand'',
                           ''Available_Quantity'', ''ProfitMargin'', ''StockValue''])
              (filter (\<lambda>r. fl_ge (numv r ''Available_Quantity'') (fl_of_int quantity_threshold) \<and>
                            fl_le (numv r ''ProfitMargin'') margin_threshold)
                 (rows (deref st df)))) \<and>
     (\<forall>r \<in> set (rows (deref st' out)). numv r ''ProfitMargin'' \<noteq> NaN) \<and>
     sorted_wrt (\<lambda>a b. fl_gt (numv a ''Available_Quantity'') (numv b ''Available_Quantity'') \<or>
                   (numv a ''Available_Quantity'' = numv b ''Available_Quantity'' \<and>
                    fl_le (numv a ''ProfitMargin'') (numv b ''ProfitMargin'')))
       (rows (deref st' out))"
proof -
  define d where "d = deref st df"
  define S where "S = map (project overstock_columns)
      (filter (overstock_selected quantity_threshold margin_threshold) (rows d))"
  define T where "T = overstock_table d quantity_threshold margin_threshold"
  from overstock_low_profit_result [OF assms, of quantity_threshold margin_threshold]
  obtain st' where
    run: "overstock_low_profit st df quantity_threshold margin_threshold =
        Inr (length (objects st), st')" and
    obj: "objects st' = objects st @ [T]"
    unfolding T_def d_def by blast
  have out: "deref st' (length (objects st)) = T"
    by (simp add: deref_def obj)
  have rowsT: "rows T =
      stable_sort_by (row_le [False, True] [''Available_Quantity'', ''ProfitMargin'']) S"
    and colsT: "columns T = overstock_columns"
    by (simp_all add: T_def overstock_table_def S_def)
  have S_keys: "numv r ''ProfitMargin'' \<noteq> NaN \<and> numv r ''Available_Quantity'' \<noteq> NaN"
    if "r \<in> set S" for r
  proof -
    from that obtain r0 where r0: "r = project overstock_columns r0"
      "overstock_selected quantity_threshold margin_threshold r0"
      by (auto simp: S_def)
    have "numv r ''ProfitMargin'' = numv r0 ''ProfitMargin''"
      and "numv r ''Available_Quantity'' = numv r0 ''Available_Quantity''"
      unfolding r0(1) by (rule numv_project, simp add: overstock_columns_def)+
    with r0(2) show ?thesis
      by (auto simp: overstock_selected_def dest: fl_ge_not_NaN fl_le_not_NaN)
  qed
  have sorted: "sorted_wrt (\<lambda>a b. fl_gt (numv a ''Available_Quantity'') (numv b ''Available_Quantity'') \<or>
                   (numv a ''Available_Quantity'' = numv b ''Available_Quantity'' \<and>
                    fl_le (numv a ''ProfitMargin'') (numv b ''ProfitMargin'')))
       (rows T)"
  proof (rule sorted_wrt_mono_rel [OF _ sorted_rows [of "[False, True]"
          "[''Available_Quantity'', ''ProfitMargin'']" S, folded rowsT]])
    fix a b
    assume a: "a \<in> set (rows T)" and b: "b \<in> set (rows T)"
      and le: "row_le [False, True] [''Available_Quantity'', ''ProfitMargin''] a b"
    from a b S_keys have na: "numv a ''Available_Quantity'' \<noteq> NaN"
      and nb: "numv b ''Available_Quantity'' \<noteq> NaN"
      and ma: "numv a ''ProfitMargin'' \<noteq> NaN" and mb: "numv b ''ProfitMargin'' \<noteq> NaN"
      by (simp_all add: rowsT)
    from le have "key_before False (numv a ''Available_Quantity'') (numv b ''Available_Quantity'') \<or>
        (numv a ''Available_Quantity'' = numv b ''Available_Quantity'' \<and>
          (key_before True (numv a ''ProfitMargin'') (numv b ''ProfitMargin'') \<or>
           numv a ''ProfitMargin'' = numv b ''ProfitMargin''))"
      by (simp add: row_le_def)
    then show "fl_gt (numv a ''Available_Quantity'') (numv b ''Available_Quantity'') \<or>
                   (numv a ''Available_Quantity'' = numv b ''Available_Quantity'' \<and>
                    fl_le (numv a ''ProfitMargin'') (numv b ''ProfitMargin''))"
      unfolding key_before_desc [OF na nb] key_before_asc_or_eq [OF ma mb] .
  qed
  have "columns T =
       [''Product_ID'', ''Product_Name'', ''Product_Brand'', ''Available_Quantity'',
        ''ProfitMargin'', ''StockValue'']"
    by (simp add: colsT overstock_columns_def)
  moreover have "mset (rows T) = mset S" by (simp add: rowsT)
  moreover have "\<forall>r \<in> set (rows T). numv r ''ProfitMargin'' \<noteq> NaN"
    by (simp add: rowsT S_keys)
  ultimately show ?thesis
    using run sorted
    unfolding out [symmetric] S_def d_def overstock_columns_def overstock_selected_def
    by blast
qed

lemma example_overstock:
  "map (\<lambda>r. lookup r ''Product_ID'') (rows (overstock_table example_table 20 (Fin 110))) =
     [Str ''P4'', Str ''P3'']"
  by (simp add: overstock_table_def overstock_selected_def example_table_def example_row_def
      numv_def lookup_def project_def overstock_columns_def stable_sort_by_def row_le_def
      key_before_def fl_le_def fl_ge_def fl_of_int_def)

theorem overstock_low_profit_correct_witness:
  "enriched (deref example_state 0) \<and>
   (\<exists>out st'. overstock_low_profit example_state 0 20 (Fin 110) = Inr (out, st') \<and>
      columns (deref st' out) =
        [''Product_ID'', ''Product_Name'', ''Product_Brand'', ''Available_Quantity'',
         ''ProfitMargin'', ''StockValue''] \<and>
      (\<forall>r \<in> set (rows (deref st' out)). numv r ''ProfitMargin'' \<noteq> NaN) \<and>
      map (\<lambda>r. lookup r ''Product_ID'') (rows (deref st' out)) = [Str ''P4'', Str ''P3''])"
proof -
  from overstock_low_profit_correct [OF example_enriched, of 20 "Fin 110"]
  obtain out st' where
    run: "overstock_low_profit example_state 0 20 (Fin 110) = Inr (out, st')" and
    cols: "columns (deref st' out) =
        [''Product_ID'', ''Product_Name'', ''Product_Brand'', ''Available_Quantity'',
         ''ProfitMargin'', ''StockValue'']" and
    margins: "\<forall>r \<in> set (rows (deref st' out)). numv r ''ProfitMargin'' \<noteq> NaN"
    by blast
  from overstock_low_profit_result [OF example_enriched, of 20 "Fin 110"] run
  have "out = length (objects example_state)"
    and "objects st' = objects example_state @ [overstock_table (deref example_state 0) 20 (Fin 110)]"
    by auto
  then have "deref st' out = overstock_table example_table 20 (Fin 110)"
    by (simp add: deref_def example_state_def)
  with example_overstock have "map (\<lambda>r. lookup r ''Product_ID'') (rows (deref st' out)) =
        [Str ''P4'', Str ''P3'']" by simp
  with run cols margins have "\<exists>out st'. overstock_low_profit example_state 0 20 (Fin 110) = Inr (out, st') \<and>
      columns (deref st' out) =
        [''Product_ID'', ''Product_Name'', ''Product_Brand'', ''Available_Quantity'',
         ''ProfitMargin'', ''StockValue''] \<and>
      (\<forall>r \<in> set (rows (deref st' out)). numv r ''ProfitMargin'' \<noteq> NaN) \<and>
      map (\<lambda>r. lookup r ''Product_ID'') (rows (deref st' out)) = [Str ''P4'', Str ''P3'']"
    by (intro exI [of _ out] exI [of _ st'] conjI)
  with example_enriched show ?thesis by (intro conjI)
qed

subsection \<open>Fast moving\<close>

lemma rows_prefiltered [simp]:
  "rows (prefiltered df mms) = filter (fast_prefilter mms) (rows df)"
  and columns_prefiltered [simp]: "columns (prefiltered df mms) = columns df"
  by (simp_all add: prefiltered_def)

lemma rows_working_table:
  "rows (working_table df mms) = map with_rate (filter (fast_prefilter mms) (rows df))"
  unfolding working_table_def rows_with_column_map by (simp add: with_rate_def [abs_def])

lemma columns_working_table:
  "columns (working_table df mms) =
     (if ''SellThroughRate'' \<in> set (columns df) then columns df
      else columns df @ [''SellThroughRate''])"
  by (simp add: working_table_def columns_with_column)

lemma lookup_with_rate:
  "lookup (with_rate r) c = (if c = ''SellThroughRate'' then Flt (sell_through r) else lookup r c)"
  by (simp add: with_rate_def lookup_update)

lemma numv_with_rate:
  "numv (with_rate r) c = (if c = ''SellThroughRate'' then sell_through r else numv r c)"
  by (simp add: numv_def lookup_with_rate)

lemma working_df_of_numeric:
  assumes n1: "numeric_column (deref st df) ''Average_Stock_Level''"
    and n2: "numeric_column (deref st df) ''Monthly_Sale_Quantity''"
  shows "working_df_of st df mms =
     Inr (length (objects st),
          st\<lparr>objects := objects st @ [prefiltered (deref st df) mms]\<rparr>)"
proof -
  define d where "d = deref st df"
  define R where "R = rows d"
  have g1: "getnum d ''Average_Stock_Level'' = Inr (map (\<lambda>r. numv r ''Average_Stock_Level'') R)"
    and g2: "getnum d ''Monthly_Sale_Quantity'' = Inr (map (\<lambda>r. numv r ''Monthly_Sale_Quantity'') R)"
    unfolding R_def d_def using n1 n2 by (simp_all add: getnum_numeric)
  have m: "map2 (\<and>) (map (\<lambda>x. fl_gt x (Fin 0)) (map (\<lambda>r. numv r ''Average_Stock_Level'') R))
       (map (\<lambda>x. fl_ge x (fl_of_int mms)) (map (\<lambda>r. numv r ''Monthly_Sale_Quantity'') R)) =
     map (fast_prefilter mms) R"
    unfolding mask_and fast_prefilter_def ..
  have f: "filter_rows d (map (fast_prefilter mms) R) = Inr (prefiltered d mms)"
    unfolding R_def prefiltered_def by (rule filter_rows_map)
  show ?thesis
    unfolding working_df_of_def d_def [symmetric]
    by (simp only: g1 g2 err_bind_simps Let_def m f new_object_eq copy_frame_def)
qed

lemma working_df_of_result:
  assumes en: "enriched (deref st df)"
  shows "working_df_of st df mms =
     Inr (length (objects st),
          st\<lparr>objects := objects st @ [prefiltered (deref st df) mms]\<rparr>)"
  using enriched_numeric [OF en] by (intro working_df_of_numeric)


lemma fast_moving_products_result:
  assumes en: "enriched (deref st df)"
  shows "\<exists>st'. fast_moving_products st df vt mms = Inr (Suc (length (objects st)), st') \<and>
           objects st' = objects st @ [working_table (deref st df) mms,
                                        fast_table (deref st df) vt mms]"
proof -
  define d where "d = deref st df"
  define n where "n = length (objects st)"
  define P where "P = prefiltered d mms"
  define st1 where "st1 = st\<lparr>objects := objects st @ [P]\<rparr>"
  define W where "W = working_table d mms"
  define st2 where "st2 = st1\<lparr>objects := (objects st1)[n := W]\<rparr>"
  define F where "F = filter (\<lambda>r. fl_ge (numv r ''SellThroughRate'') vt) (rows W)"
  define Z where "Z = stable_sort_by (row_le [False] [''SellThroughRate'']) F"
  define T where "T = fast_table d vt mms"
  note nc = enriched_numeric [OF en [folded d_def]]
  note c = enriched_columns [OF en [folded d_def]]
  have w: "working_df_of st df mms = Inr (n, st1)"
    unfolding n_def st1_def P_def d_def by (rule working_df_of_result [OF en])
  have d1: "deref st1 n = P"
    by (simp add: deref_def st1_def n_def)
  have "numeric_column P ''Total_Sold''" "numeric_column P ''Average_Stock_Level''"
    unfolding P_def prefiltered_def
    by (rule numeric_column_rows_subset [OF nc(2)], simp,
        rule numeric_column_rows_subset [OF nc(4)], simp)
  then have gs: "getnum P ''Total_Sold'' = Inr (map (\<lambda>r. numv r ''Total_Sold'') (rows P))"
    and ga: "getnum P ''Average_Stock_Level'' =
        Inr (map (\<lambda>r. numv r ''Average_Stock_Level'') (rows P))"
    by (simp_all add: getnum_numeric)
  have series: "map Flt (map2 fl_div (map (\<lambda>r. numv r ''Total_Sold'') (rows P))
       (map (\<lambda>r. numv r ''Average_Stock_Level'') (rows P))) =
     map (\<lambda>r. Flt (sell_through r)) (rows P)"
    unfolding sell_through_def by (simp only: map2_map_same map_map comp_def)
  have si: "setitem_inplace st1 n ''SellThroughRate'' (map (\<lambda>r. Flt (sell_through r)) (rows P)) =
      Inr st2"
    unfolding setitem_inplace_def d1
    by (simp add: setitem_def st2_def W_def working_table_def P_def)
  have obj2: "objects st2 = objects st @ [W]"
    by (simp add: st2_def st1_def n_def)
  have d2: "deref st2 n = W"
    by (simp add: deref_def obj2 n_def)
  have rowsW: "rows W = map with_rate (filter (fast_prefilter mms) (rows d))"
    unfolding W_def by (rule rows_working_table)
  have memW: "set fast_columns \<subseteq> set (columns W)" "''SellThroughRate'' \<in> set (columns W)"
    using c by (simp_all add: W_def columns_working_table fast_columns_def)
  have numW: "numeric_column W ''SellThroughRate''"
    using memW(2) by (simp add: numeric_column_def rowsW lookup_with_rate)
  then have gr: "getnum W ''SellThroughRate'' = Inr (map (\<lambda>r. numv r ''SellThroughRate'') (rows W))"
    by (rule getnum_numeric)
  have fr: "filter_rows W (map (\<lambda>x. fl_ge x vt) (map (\<lambda>r. numv r ''SellThroughRate'') (rows W))) =
      Inr (W\<lparr>rows := F\<rparr>)"
    using filter_rows_map [of W "\<lambda>r. fl_ge (numv r ''SellThroughRate'') vt"]
    by (simp add: F_def comp_def)
  have "\<forall>c \<in> set [''SellThroughRate'']. numeric_column (W\<lparr>rows := F\<rparr>) c"
    using numeric_column_rows_subset [OF numW, of F] by (simp add: F_def)
  from sort_values_Inr [OF this, of "[False]"]
  have sv: "sort_values (W\<lparr>rows := F\<rparr>) [''SellThroughRate''] [False] = Inr (W\<lparr>rows := Z\<rparr>)"
    by (simp add: Z_def)
  have sc: "select_columns (reset_index_drop (W\<lparr>rows := Z\<rparr>)) fast_columns = Inr T"
    using select_columns_Inr [of fast_columns "W\<lparr>rows := Z\<rparr>"] memW(1)
    by (simp add: reset_index_drop_def T_def fast_table_def Z_def F_def W_def)
  have colsT: "columns T \<noteq> []"
    by (simp add: T_def fast_table_def fast_columns_def)
  have tail: "\<exists>name v. row_getitem (rows T ! 0) ''Product_Name'' = Inr name \<and>
      row_getitem (rows T ! 0) ''SellThroughRate'' = Inr v" if "rows T \<noteq> []"
  proof -
    from that have "rows T ! 0 \<in> set (rows T)" by simp
    then obtain r0 where r0: "rows T ! 0 = project fast_columns r0"
      by (auto simp: T_def fast_table_def)
    show ?thesis unfolding r0
      by (simp add: row_getitem_project fast_columns_def)
  qed
  have body: "fast_moving_products st df vt mms =
     (let (insights, st3) = new_object st2 T;
         st4 = print st3 (Line ''[fast_moving_products]''
                 [count_cell (deref st3 insights), Flt vt, Flt (fl_of_int mms)])
     in
     if \<not> empty (deref st4 insights) then
       err_bind (iloc (deref st4 insights) 0) (\<lambda>top.
       err_bind (row_getitem top ''Product_Name'') (\<lambda>name.
       err_bind (row_getitem top ''SellThroughRate'') (\<lambda>v.
       Inr (insights, print st4 (Line ''Fastest mover'' [name, v])))))
     else Inr (insights, st4))"
    unfolding fast_moving_products_def
    by (simp only: w err_bind_simps prod.case d1 gs ga series si d2 gr fr sv
        sc [unfolded fast_columns_def])
  have nth: "(objects st @ [W, T]) ! Suc (length (objects st)) = T"
    by (simp add: nth_append)
  show ?thesis
  proof (cases "rows T = []")
    case True
    then show ?thesis
      unfolding body d_def [symmetric] T_def [symmetric] W_def [symmetric]
      by (simp add: new_object_eq empty_def print_def Let_def deref_def obj2 nth)
  next
    case False
    from tail [OF False] obtain name v where
      "row_getitem (rows T ! 0) ''Product_Name'' = Inr name"
      "row_getitem (rows T ! 0) ''SellThroughRate'' = Inr v" by blast
    with False colsT show ?thesis
      unfolding body d_def [symmetric] T_def [symmetric] W_def [symmetric]
      by (simp add: new_object_eq empty_def iloc_def print_def Let_def deref_def obj2 nth)
  qed
qed









subsection \<open>Brand summary\<close>

lemma sequence_err_map_Inr:
  "\<forall>x \<in> set xs. f x = Inr (g x) \<Longrightarrow> sequence_err (map f xs) = Inr (map g xs)"
  by (induction xs) simp_all

lemma as_numeric_column:
  "\<forall>r \<in> set g. is_number (lookup r c) \<Longrightarrow>
     as_numeric (map (\<lambda>r. lookup r c) g) = Inr (map (\<lambda>r. numv r c) g)"
  by (simp add: as_numeric_def list_all_iff numv_def comp_def)

lemma agg_row_brand:
  assumes "\<forall>r \<in> set (rows df). is_number (lookup r ''Profit'')"
    and "\<forall>r \<in> set (rows df). is_number (lookup r ''StockValue'')"
    and "\<forall>r \<in> set (rows df). is_number (lookup r ''ProfitMargin'')"
  shows "agg_row ''Product_Brand'' brand_specs (k, brand_group df k) = Inr (brand_row df k)"
proof -
  have sub: "set (brand_group df k) \<subseteq> set (rows df)" by (auto simp: brand_group_def)
  with assms have
    "as_numeric (map (\<lambda>r. lookup r ''Profit'') (brand_group df k)) =
       Inr (map (\<lambda>r. numv r ''Profit'') (brand_group df k))"
    "as_numeric (map (\<lambda>r. lookup r ''StockValue'') (brand_group df k)) =
       Inr (map (\<lambda>r. numv r ''StockValue'') (brand_group df k))"
    "as_numeric (map (\<lambda>r. lookup r ''ProfitMargin'') (brand_group df k)) =
       Inr (map (\<lambda>r. numv r ''ProfitMargin'') (brand_group df k))"
    by (auto intro!: as_numeric_column)
  then show ?thesis
    by (simp add: agg_row_def brand_specs_def brand_row_def)
qed

lemma brand_summary_result:
  assumes en: "enriched (deref st df)"
  shows "\<exists>st'. brand_summary st df = Inr (length (objects st), st') \<and>
           objects st' = objects st @ [brand_table (deref st df)]"
proof -
  define d where "d = deref st df"
  define G where "G = map (\<lambda>k. (k, brand_group d k)) (brand_keys d)"
  define A where "A = \<lparr>columns = brand_columns, rows = map (brand_row d) (brand_keys d)\<rparr>"
  define T where "T = brand_table d"
  note n = enriched_numeric [OF en [folded d_def]]
  note c = enriched_columns [OF en [folded d_def]]
  have gb: "groupby d ''Product_Brand'' = Inr G"
    using c(3) by (simp add: groupby_def getitem_def G_def brand_keys_def brand_group_def [abs_def])
  have nospec: "filter (\<lambda>(name, column, f). column \<notin> set (columns d)) brand_specs = []"
    using c by (simp add: brand_specs_def)
  have num: "\<forall>r \<in> set (rows d). is_number (lookup r ''Profit'')"
    "\<forall>r \<in> set (rows d). is_number (lookup r ''StockValue'')"
    "\<forall>r \<in> set (rows d). is_number (lookup r ''ProfitMargin'')"
    using n by (simp_all add: numeric_column_def)
  have "sequence_err (map (agg_row ''Product_Brand'' brand_specs) G) =
      Inr (map (\<lambda>g. brand_row d (fst g)) G)"
    by (rule sequence_err_map_Inr) (auto simp: G_def agg_row_brand [OF num])
  then have rs: "sequence_err (map (agg_row ''Product_Brand'' brand_specs) G) =
      Inr (map (brand_row d) (brand_keys d))"
    by (simp add: G_def comp_def)
  have mf: "''Product_Brand'' # map fst brand_specs = brand_columns"
    by (simp add: brand_specs_def brand_columns_def)
  have ag: "agg d ''Product_Brand'' brand_specs = Inr A"
    unfolding agg_def gb by (simp only: err_bind_simps nospec list.case rs mf A_def)
  have "\<forall>c \<in> set [''TotalProfit'']. numeric_column A c"
    by (simp add: numeric_column_def A_def brand_columns_def brand_row_def lookup_def)
  from sort_values_Inr [OF this, of "[False]"]
  have sv: "sort_values A [''TotalProfit''] [False] = Inr T"
    by (simp add: A_def T_def brand_table_def)
  show ?thesis
    unfolding brand_summary_def d_def [symmetric] brand_specs_def [symmetric] ag
    by (simp add: new_object_eq print_def Let_def sv T_def)
qed

lemma lookup_brand_row:
  "lookup (brand_row df k) ''Product_Brand'' = k"
  "lookup (brand_row df k) ''TotalProfit'' =
     Flt (nansum (map (\<lambda>r. numv r ''Profit'') (brand_group df k)))"
  "lookup (brand_row df k) ''TotalStockValue'' =
     Flt (nansum (map (\<lambda>r. numv r ''StockValue'') (brand_group df k)))"
  "lookup (brand_row df k) ''AvgProfitMargin'' =
     Flt (nanmean (map (\<lambda>r. numv r ''ProfitMargin'') (brand_group df k)))"
  "lookup (brand_row df k) ''SKUCount'' =
     Flt (Fin (of_nat (nunique (map (\<lambda>r. lookup r ''Product_ID'') (brand_group df k)))))"
  by (simp_all add: brand_row_def lookup_def)

lemma set_brand_keys: "set (brand_keys df) = (\<lambda>r. lookup r ''Product_Brand'') ` set (rows df)"
  by (simp add: brand_keys_def)


lemma set_rows_brand_table: "set (rows (brand_table df)) = brand_row df ` set (brand_keys df)"
  by (simp add: brand_table_def)




lemma nanmean_present:
  "nanmean xs = (if present xs = [] then NaN
     else fl_div (foldl fl_add (Fin 0) (present xs)) (Fin (of_nat (length (present xs)))))"
  by (simp add: nanmean_def present_def Let_def)

lemma nanmean_all_missing: "\<forall>x \<in> set xs. x = NaN \<Longrightarrow> nanmean xs = NaN"
  by (simp add: nanmean_present present_def filter_empty_conv)




text \<open>
  C10. On an enriched table, a brand all of whose rows have a missing ProfitMargin still
  has its row in the table that \<^verbatim>\<open>brand_summary\<close> returns: the function returns, some
  row carries the brand, and every row that carries it has the missing marker as
  AvgProfitMargin (neither zero nor an error) next to the brand's TotalProfit,
  TotalStockValue and SKUCount.
\<close>

theorem brand_summary_all_margins_missing:
  assumes "enriched (deref st df)"
    and "k \<in> set (map (\<lambda>r. lookup r ''Product_Brand'') (rows (deref st df)))"
    and "\<forall>s \<in> set (brand_group (deref st df) k). numv s ''ProfitMargin'' = NaN"
  shows "\<exists>out st'. brand_summary st df = Inr (out, st') \<and>
     (\<exists>r \<in> set (rows (deref st' out)). lookup r ''Product_Brand'' = k) \<and>
     (\<forall>r \<in> set (rows (deref st' out)). lookup r ''Product_Brand'' = k \<longrightarrow>
        lookup r ''AvgProfitMargin'' = Flt NaN \<and>
        lookup r ''TotalProfit'' =
          Flt (nansum (map (\<lambda>s. numv s ''Profit'') (brand_group (deref st df) k))) \<and>
        lookup r ''TotalStockValue'' =
          Flt (nansum (map (\<lambda>s. numv s ''StockValue'') (brand_group (deref st df) k))) \<and>
        lookup r ''SKUCount'' =
          Flt (Fin (of_nat (nunique (map (\<lambda>s. lookup s ''Product_ID'')
             (brand_group (deref st df) k))))))"
proof -
  define d where "d = deref st df"
  define T where "T = brand_table d"
  from brand_summary_result [OF assms(1)] obtain st' where
    run: "brand_summary st df = Inr (length (objects st), st')" and
    obj: "objects st' = objects st @ [T]"
    unfolding T_def d_def by blast
  have out: "deref st' (length (objects st)) = T"
    by (simp add: deref_def obj)
  from assms(2) have "k \<in> set (brand_keys d)"
    by (simp add: set_brand_keys d_def)
  then have "brand_row d k \<in> set (rows T)"
    unfolding T_def set_rows_brand_table by (rule imageI)
  then have ex: "\<exists>r \<in> set (rows T). lookup r ''Product_Brand'' = k"
    using lookup_brand_row(1) [of d k] by blast
  from assms(3) have "\<forall>x \<in> set (map (\<lambda>s. numv s ''ProfitMargin'') (brand_group d k)). x = NaN"
    by (simp add: d_def)
  then have mean: "nanmean (map (\<lambda>s. numv s ''ProfitMargin'') (brand_group d k)) = NaN"
    by (rule nanmean_all_missing)
  have all: "lookup r ''AvgProfitMargin'' = Flt NaN \<and>
        lookup r ''TotalProfit'' =
          Flt (nansum (map (\<lambda>s. numv s ''Profit'') (brand_group d k))) \<and>
        lookup r ''TotalStockValue'' =
          Flt (nansum (map (\<lambda>s. numv s ''StockValue'') (brand_group d k))) \<and>
        lookup r ''SKUCount'' =
          Flt (Fin (of_nat (nunique (map (\<lambda>s. lookup s ''Product_ID'') (brand_group d k)))))"
    if r: "r \<in> set (rows T)" and k: "lookup r ''Product_Brand'' = k" for r
  proof -
    from r obtain k' where r': "r = brand_row d k'"
      unfolding T_def set_rows_brand_table by blast
    with k have "k' = k" by (simp add: lookup_brand_row(1))
    with r' have "r = brand_row d k" by simp
    then show ?thesis
      by (simp add: lookup_brand_row mean)
  qed
  from run ex all show ?thesis
    unfolding out [symmetric] d_def by blast
qed

theorem brand_summary_all_margins_missing_witness:
  "enriched (deref example_state 0) \<and>
   Str ''Core'' \<in> set (map (\<lambda>r. lookup r ''Product_Brand'') (rows (deref example_state 0))) \<and>
   map (\<lambda>s. numv s ''ProfitMargin'') (brand_group (deref example_state 0) (Str ''Core'')) =
     [NaN] \<and>
   (\<exists>out st'. brand_summary example_state 0 = Inr (out, st') \<and>
     (\<exists>r \<in> set (rows (deref st' out)).
        lookup r ''Product_Brand'' = Str ''Core'' \<and>
        lookup r ''AvgProfitMargin'' = Flt NaN \<and>
        lookup r ''TotalProfit'' = Flt (Fin 0) \<and>
        lookup r ''TotalStockValue'' = Flt (Fin 50) \<and>
        lookup r ''SKUCount'' = Flt (Fin 1)))"
proof -
  have d: "deref example_state 0 = example_table"
    by (simp add: deref_def example_state_def)
  have mem: "Str ''Core'' \<in> set (map (\<lambda>r. lookup r ''Product_Brand'') (rows (deref example_state 0)))"
    by (simp add: d example_table_def example_row_def lookup_def)
  have miss: "\<forall>s \<in> set (brand_group (deref example_state 0) (Str ''Core'')).
      numv s ''ProfitMargin'' = NaN"
    by (simp add: d brand_group_def example_table_def example_row_def numv_def lookup_def)
  have margins:
    "map (\<lambda>s. numv s ''ProfitMargin'') (brand_group (deref example_state 0) (Str ''Core'')) =
       [NaN]"
    by (simp add: d brand_group_def example_table_def example_row_def numv_def lookup_def)
  have sums:
    "nansum (map (\<lambda>s. numv s ''Profit'') (brand_group (deref example_state 0) (Str ''Core''))) = Fin 0"
    "nansum (map (\<lambda>s. numv s ''StockValue'') (brand_group (deref example_state 0) (Str ''Core''))) = Fin 50"
    "nunique (map (\<lambda>s. lookup s ''Product_ID'') (brand_group (deref example_state 0) (Str ''Core''))) = 1"
    by (simp_all add: d brand_group_def example_table_def example_row_def numv_def lookup_def
        nansum_def nunique_def)
  from brand_summary_all_margins_missing [OF example_enriched mem miss]
  obtain out st' r where
    run: "brand_summary example_state 0 = Inr (out, st')" and
    r: "r \<in> set (rows (deref st' out))" and
    k: "lookup r ''Product_Brand'' = Str ''Core''" and
    all: "\<forall>r \<in> set (rows (deref st' out)). lookup r ''Product_Brand'' = Str ''Core'' \<longrightarrow>
        lookup r ''AvgProfitMargin'' = Flt NaN \<and>
        lookup r ''TotalProfit'' =
          Flt (nansum (map (\<lambda>s. numv s ''Profit'')
            (brand_group (deref example_state 0) (Str ''Core'')))) \<and>
        lookup r ''TotalStockValue'' =
          Flt (nansum (map (\<lambda>s. numv s ''StockValue'')
            (brand_group (deref example_state 0) (Str ''Core'')))) \<and>
        lookup r ''SKUCount'' =
          Flt (Fin (of_nat (nunique (map (\<lambda>s. lookup s ''Product_ID'')
             (brand_group (deref example_state 0) (Str ''Core''))))))"
    by (elim exE bexE conjE) (rule that)
  from all [rule_format, OF r k] have
    "lookup r ''AvgProfitMargin'' = Flt NaN"
    "lookup r ''TotalProfit'' = Flt (Fin 0)"
    "lookup r ''TotalStockValue'' = Flt (Fin 50)"
    "lookup r ''SKUCount'' = Flt (Fin 1)"
    unfolding sums by simp_all
  with r k have "\<exists>r \<in> set (rows (deref st' out)).
        lookup r ''Product_Brand'' = Str ''Core'' \<and>
        lookup r ''AvgProfitMargin'' = Flt NaN \<and>
        lookup r ''TotalProfit'' = Flt (Fin 0) \<and>
        lookup r ''TotalStockValue'' = Flt (Fin 50) \<and>
        lookup r ''SKUCount'' = Flt (Fin 1)"
    by (intro bexI [of _ r] conjI)
  with run have "\<exists>out st'. brand_summary example_state 0 = Inr (out, st') \<and>
     (\<exists>r \<in> set (rows (deref st' out)).
        lookup r ''Product_Brand'' = Str ''Core'' \<and>
        lookup r ''AvgProfitMargin'' = Flt NaN \<and>
        lookup r ''TotalProfit'' = Flt (Fin 0) \<and>
        lookup r ''TotalStockValue'' = Flt (Fin 50) \<and>
        lookup r ''SKUCount'' = Flt (Fin 1))"
    by (intro exI [of _ out] exI [of _ st'] conjI)
  with example_enriched mem margins show ?thesis by (intro conjI)
qed

text \<open>
  C8. On an enriched table, a call in which no row qualifies is not an error: each of
  \<^verbatim>\<open>low_stock_profitable\<close>, \<^verbatim>\<open>overstock_low_profit\<close> and \<^verbatim>\<open>fast_moving_products\<close> returns a
  table with no rows and with all the columns it projects to, whenever no row of the input
  passes its filters; \<^verbatim>\<open>brand_summary\<close>, which filters nothing, does so on an input with
  no rows.
\<close>

theorem empty_results:
  assumes "enriched (deref st df)"
  shows
   "((\<forall>r \<in> set (rows (deref st df)).
        \<not> (fl_le (numv r ''Available_Quantity'') (fl_of_int qt) \<and>
           fl_ge (numv r ''ProfitMargin'') mt)) \<longrightarrow>
      (\<exists>out st'. low_stock_profitable st df qt mt = Inr (out, st') \<and>
         columns (deref st' out) =
           [''Product_ID'', ''Product_Name'', ''Available_Quantity'', ''Profit'', ''ProfitMargin''] \<and>
         rows (deref st' out) = [])) \<and>
    ((\<forall>r \<in> set (rows (deref st df)).
        \<not> (fl_ge (numv r ''Available_Quantity'') (fl_of_int qt') \<and>
           fl_le (numv r ''ProfitMargin'') mt')) \<longrightarrow>
      (\<exists>out st'. overstock_low_profit st df qt' mt' = Inr (out, st') \<and>
         columns (deref st' out) =
           [''Product_ID'', ''Product_Name'', ''Product_Brand'', ''Available_Quantity'',
            ''ProfitMargin'', ''StockValue''] \<and>
         rows (deref st' out) = [])) \<and>
    ((\<forall>r \<in> set (rows (deref st df)).
        \<not> (fl_gt (numv r ''Average_Stock_Level'') (Fin 0) \<and>
           fl_ge (numv r ''Monthly_Sale_Quantity'') (fl_of_int mms) \<and>
           fl_ge (fl_div (numv r ''Total_Sold'') (numv r ''Average_Stock_Level'')) vt)) \<longrightarrow>
      (\<exists>out st'. fast_moving_products st df vt mms = Inr (out, st') \<and>
         columns (deref st' out) =
           [''Product_ID'', ''Product_Name'', ''Monthly_Sale_Quantity'', ''Average_Stock_Level'',
            ''SellThroughRate'', ''ProfitMargin''] \<and>
         rows (deref st' out) = [])) \<and>
    (rows (deref st df) = [] \<longrightarrow>
      (\<exists>out st'. brand_summary st df = Inr (out, st') \<and>
         columns (deref st' out) =
           [''Product_Brand'', ''TotalProfit'', ''TotalStockValue'', ''AvgProfitMargin'', ''SKUCount''] \<and>
         rows (deref st' out) = []))"
proof -
  define d where "d = deref st df"
  define n where "n = length (objects st)"
  have low: "(\<exists>out st'. low_stock_profitable st df qt mt = Inr (out, st') \<and>
         columns (deref st' out) =
           [''Product_ID'', ''Product_Name'', ''Available_Quantity'', ''Profit'', ''ProfitMargin''] \<and>
         rows (deref st' out) = [])"
    if none: "(\<forall>r \<in> set (rows (deref st df)).
        \<not> (fl_le (numv r ''Available_Quantity'') (fl_of_int qt) \<and>
           fl_ge (numv r ''ProfitMargin'') mt))"
  proof -
    from low_stock_profitable_result [OF assms, of qt mt] obtain st' where
      run: "low_stock_profitable st df qt mt = Inr (n, st')" and
      obj: "objects st' = objects st @ [low_stock_table d qt mt]"
      unfolding d_def n_def by blast
    have out: "deref st' n = low_stock_table d qt mt"
      by (simp add: deref_def obj n_def)
    from none have "filter (low_stock_selected qt mt) (rows d) = []"
      unfolding filter_empty_conv low_stock_selected_def d_def by blast
    then have "rows (deref st' n) = []"
      by (simp add: out low_stock_table_def)
    moreover have "columns (deref st' n) =
           [''Product_ID'', ''Product_Name'', ''Available_Quantity'', ''Profit'', ''ProfitMargin'']"
      by (simp add: out low_stock_table_def low_stock_columns_def)
    ultimately show ?thesis using run by blast
  qed
  have over: "(\<exists>out st'. overstock_low_profit st df qt' mt' = Inr (out, st') \<and>
         columns (deref st' out) =
           [''Product_ID'', ''Product_Name'', ''Product_Brand'', ''Available_Quantity'',
            ''ProfitMargin'', ''StockValue''] \<and>
         rows (deref st' out) = [])"
    if none: "(\<forall>r \<in> set (rows (deref st df)).
        \<not> (fl_ge (numv r ''Available_Quantity'') (fl_of_int qt') \<and>
           fl_le (numv r ''ProfitMargin'') mt'))"
  proof -
    from overstock_low_profit_result [OF assms, of qt' mt'] obtain st' where
      run: "overstock_low_profit st df qt' mt' = Inr (n, st')" and
      obj: "objects st' = objects st @ [overstock_table d qt' mt']"
      unfolding d_def n_def by blast
    have out: "deref st' n = overstock_table d qt' mt'"
      by (simp add: deref_def obj n_def)
    from none have "filter (overstock_selected qt' mt') (rows d) = []"
      unfolding filter_empty_conv overstock_selected_def d_def by blast
    then have "rows (deref st' n) = []"
      by (simp add: out overstock_table_def)
    moreover have "columns (deref st' n) =
           [''Product_ID'', ''Product_Name'', ''Product_Brand'', ''Available_Quantity'',
            ''ProfitMargin'', ''StockValue'']"
      by (simp add: out overstock_table_def overstock_columns_def)
    ultimately show ?thesis using run by blast
  qed
  have fast: "(\<exists>out st'. fast_moving_products st df vt mms = Inr (out, st') \<and>
         columns (deref st' out) =
           [''Product_ID'', ''Product_Name'', ''Monthly_Sale_Quantity'', ''Average_Stock_Level'',
            ''SellThroughRate'', ''ProfitMargin''] \<and>
         rows (deref st' out) = [])"
    if none: "(\<forall>r \<in> set (rows (deref st df)).
        \<not> (fl_gt (numv r ''Average_Stock_Level'') (Fin 0) \<and>
           fl_ge (numv r ''Monthly_Sale_Quantity'') (fl_of_int mms) \<and>
           fl_ge (fl_div (numv r ''Total_Sold'') (numv r ''Average_Stock_Level'')) vt))"
  proof -
    from fast_moving_products_result [OF assms, of vt mms] obtain st' where
      run: "fast_moving_products st df vt mms = Inr (Suc n, st')" and
      obj: "objects st' = objects st @ [working_table d mms, fast_table d vt mms]"
      unfolding d_def n_def by blast
    have "(objects st @ [working_table d mms, fast_table d vt mms]) ! Suc (length (objects st)) =
        fast_table d vt mms"
      by (simp add: nth_append)
    then have out: "deref st' (Suc n) = fast_table d vt mms"
      by (simp add: deref_def obj n_def)
    have "\<not> fl_ge (numv r ''SellThroughRate'') vt"
      if "r \<in> set (rows (working_table d mms))" for r
    proof -
      from that obtain s where s: "s \<in> set (rows d)" "fast_prefilter mms s" and r: "r = with_rate s"
        unfolding rows_working_table by auto
      from none [unfolded d_def [symmetric], rule_format, OF s(1)] s(2)
      have "\<not> fl_ge (sell_through s) vt"
        unfolding fast_prefilter_def sell_through_def by blast
      then show ?thesis by (simp add: r numv_with_rate)
    qed
    then have "filter (\<lambda>r. fl_ge (numv r ''SellThroughRate'') vt) (rows (working_table d mms)) = []"
      unfolding filter_empty_conv by blast
    then have "rows (deref st' (Suc n)) = []"
      by (simp add: out fast_table_def stable_sort_by_def)
    moreover have "columns (deref st' (Suc n)) =
           [''Product_ID'', ''Product_Name'', ''Monthly_Sale_Quantity'', ''Average_Stock_Level'',
            ''SellThroughRate'', ''ProfitMargin'']"
      by (simp add: out fast_table_def fast_columns_def)
    ultimately show ?thesis using run by blast
  qed
  have brand: "(\<exists>out st'. brand_summary st df = Inr (out, st') \<and>
         columns (deref st' out) =
           [''Product_Brand'', ''TotalProfit'', ''TotalStockValue'', ''AvgProfitMargin'', ''SKUCount''] \<and>
         rows (deref st' out) = [])"
    if none: "rows (deref st df) = []"
  proof -
    from brand_summary_result [OF assms] obtain st' where
      run: "brand_summary st df = Inr (n, st')" and
      obj: "objects st' = objects st @ [brand_table d]"
      unfolding d_def n_def by blast
    have out: "deref st' n = brand_table d"
      by (simp add: deref_def obj n_def)
    from none have "brand_keys d = []"
      by (simp add: brand_keys_def d_def stable_sort_by_def)
    then have "rows (deref st' n) = []"
      by (simp add: out brand_table_def stable_sort_by_def)
    moreover have "columns (deref st' n) =
           [''Product_Brand'', ''TotalProfit'', ''TotalStockValue'', ''AvgProfitMargin'', ''SKUCount'']"
      by (simp add: out brand_table_def brand_columns_def)
    ultimately show ?thesis using run by blast
  qed
  from low over fast brand show ?thesis by (intro conjI impI)
qed

lemma empty_enriched: "enriched (deref empty_state 0)"
  by (simp add: deref_def empty_state_def empty_table_def enriched_def numeric_column_def
      example_table_def)

theorem empty_results_witness:
  "enriched (deref example_state 0) \<and>
   filter (\<lambda>r. fl_le (numv r ''Available_Quantity'') (fl_of_int (- 1)) \<and>
           fl_ge (numv r ''ProfitMargin'') (Fin 20))
        (rows (deref example_state 0)) = [] \<and>
   (\<exists>out st'. low_stock_profitable example_state 0 (- 1) (Fin 20) = Inr (out, st') \<and>
         columns (deref st' out) =
           [''Product_ID'', ''Product_Name'', ''Available_Quantity'', ''Profit'', ''ProfitMargin''] \<and>
         rows (deref st' out) = []) \<and>
   filter (\<lambda>r. fl_ge (numv r ''Available_Quantity'') (fl_of_int 1000) \<and>
           fl_le (numv r ''ProfitMargin'') (Fin 10))
        (rows (deref example_state 0)) = [] \<and>
   (\<exists>out st'. overstock_low_profit example_state 0 1000 (Fin 10) = Inr (out, st') \<and>
         columns (deref st' out) =
           [''Product_ID'', ''Product_Name'', ''Product_Brand'', ''Available_Quantity'',
            ''ProfitMargin'', ''StockValue''] \<and>
         rows (deref st' out) = []) \<and>
   filter (\<lambda>r. fl_gt (numv r ''Average_Stock_Level'') (Fin 0) \<and>
           fl_ge (numv r ''Monthly_Sale_Quantity'') (fl_of_int 40) \<and>
           fl_ge (fl_div (numv r ''Total_Sold'') (numv r ''Average_Stock_Level'')) (Fin 100))
        (rows (deref example_state 0)) = [] \<and>
   (\<exists>out st'. fast_moving_products example_state 0 (Fin 100) 40 = Inr (out, st') \<and>
         columns (deref st' out) =
           [''Product_ID'', ''Product_Name'', ''Monthly_Sale_Quantity'', ''Average_Stock_Level'',
            ''SellThroughRate'', ''ProfitMargin''] \<and>
         rows (deref st' out) = []) \<and>
   enriched (deref empty_state 0) \<and>
   rows (deref empty_state 0) = [] \<and>
   (\<exists>out st'. brand_summary empty_state 0 = Inr (out, st') \<and>
         columns (deref st' out) =
           [''Product_Brand'', ''TotalProfit'', ''TotalStockValue'', ''AvgProfitMargin'', ''SKUCount''] \<and>
         rows (deref st' out) = [])"
proof -
  have d: "deref example_state 0 = example_table"
    by (simp add: deref_def example_state_def)
  have h1: "(\<forall>r \<in> set (rows (deref example_state 0)).
        \<not> (fl_le (numv r ''Available_Quantity'') (fl_of_int (- 1)) \<and>
           fl_ge (numv r ''ProfitMargin'') (Fin 20)))"
    by (simp add: d example_table_def example_row_def numv_def lookup_def fl_le_def fl_ge_def
        fl_of_int_def)
  have h2: "(\<forall>r \<in> set (rows (deref example_state 0)).
        \<not> (fl_ge (numv r ''Available_Quantity'') (fl_of_int 1000) \<and>
           fl_le (numv r ''ProfitMargin'') (Fin 10)))"
    by (simp add: d example_table_def example_row_def numv_def lookup_def fl_le_def fl_ge_def
        fl_of_int_def)
  have h3: "(\<forall>r \<in> set (rows (deref example_state 0)).
        \<not> (fl_gt (numv r ''Average_Stock_Level'') (Fin 0) \<and>
           fl_ge (numv r ''Monthly_Sale_Quantity'') (fl_of_int 40) \<and>
           fl_ge (fl_div (numv r ''Total_Sold'') (numv r ''Average_Stock_Level'')) (Fin 100)))"
    by (simp add: d example_table_def example_row_def numv_def lookup_def fl_gt_def fl_ge_def
        fl_le_def fl_of_int_def inf_of_sign_def)
  have h4: "rows (deref empty_state 0) = []"
    by (simp add: deref_def empty_state_def empty_table_def)
  have f1: "filter (\<lambda>r. fl_le (numv r ''Available_Quantity'') (fl_of_int (- 1)) \<and>
           fl_ge (numv r ''ProfitMargin'') (Fin 20))
        (rows (deref example_state 0)) = []"
    unfolding filter_empty_conv by (rule h1)
  have f2: "filter (\<lambda>r. fl_ge (numv r ''Available_Quantity'') (fl_of_int 1000) \<and>
           fl_le (numv r ''ProfitMargin'') (Fin 10))
        (rows (deref example_state 0)) = []"
    unfolding filter_empty_conv by (rule h2)
  have f3: "filter (\<lambda>r. fl_gt (numv r ''Average_Stock_Level'') (Fin 0) \<and>
           fl_ge (numv r ''Monthly_Sale_Quantity'') (fl_of_int 40) \<and>
           fl_ge (fl_div (numv r ''Total_Sold'') (numv r ''Average_Stock_Level'')) (Fin 100))
        (rows (deref example_state 0)) = []"
    unfolding filter_empty_conv by (rule h3)
  note a = empty_results [OF example_enriched, of "- 1" "Fin 20" 1000 "Fin 10" 40 "Fin 100"]
  note b = empty_results [OF empty_enriched, of 0 "Fin 0" 0 "Fin 0" 0 "Fin 0"]
  from a h1 have c1: "(\<exists>out st'. low_stock_profitable example_state 0 (- 1) (Fin 20) = Inr (out, st') \<and>
         columns (deref st' out) =
           [''Product_ID'', ''Product_Name'', ''Available_Quantity'', ''Profit'', ''ProfitMargin''] \<and>
         rows (deref st' out) = [])"
    by (elim conjE) (erule mp)
  from a h2 have c2: "(\<exists>out st'. overstock_low_profit example_state 0 1000 (Fin 10) = Inr (out, st') \<and>
         columns (deref st' out) =
           [''Product_ID'', ''Product_Name'', ''Product_Brand'', ''Available_Quantity'',
            ''ProfitMargin'', ''StockValue''] \<and>
         rows (deref st' out) = [])"
    by (elim conjE) (erule mp)
  from a h3 have c3: "(\<exists>out st'. fast_moving_products example_state 0 (Fin 100) 40 = Inr (out, st') \<and>
         columns (deref st' out) =
           [''Product_ID'', ''Product_Name'', ''Monthly_Sale_Quantity'', ''Average_Stock_Level'',
            ''SellThroughRate'', ''ProfitMargin''] \<and>
         rows (deref st' out) = [])"
    by (elim conjE) (erule mp)
  from b h4 have c4: "(\<exists>out st'. brand_summary empty_state 0 = Inr (out, st') \<and>
         columns (deref st' out) =
           [''Product_Brand'', ''TotalProfit'', ''TotalStockValue'', ''AvgProfitMargin'', ''SKUCount''] \<and>
         rows (deref st' out) = [])"
    by (elim conjE) (erule mp)
  from example_enriched f1 c1 f2 c2 f3 c3 empty_enriched h4 c4 show ?thesis
    by (intro conjI)
qed

text \<open>
  C9. The insight functions do not change the table they are given. On an enriched table
  held in the store, each of the four functions returns, every object that was in the
  store before the call is the same after it, and so the input table has the same columns
  and the same rows; the tables a call makes are new objects. In particular
  \<^verbatim>\<open>fast_moving_products\<close> assigns SellThroughRate to its own copy: the input table has
  that column after the call only if it had it before.
\<close>

theorem insight_functions_frame:
  assumes "enriched (deref st df)" and "df < length (objects st)"
  shows
   "(\<exists>out st'. low_stock_profitable st df qt mt = Inr (out, st') \<and>
       take (length (objects st)) (objects st') = objects st \<and>
       deref st' df = deref st df) \<and>
    (\<exists>out st'. overstock_low_profit st df qt' mt' = Inr (out, st') \<and>
       take (length (objects st)) (objects st') = objects st \<and>
       deref st' df = deref st df) \<and>
    (\<exists>out st'. fast_moving_products st df vt mms = Inr (out, st') \<and>
       take (length (objects st)) (objects st') = objects st \<and>
       deref st' df = deref st df \<and>
       (''SellThroughRate'' \<in> set (columns (deref st' df)) \<longleftrightarrow>
        ''SellThroughRate'' \<in> set (columns (deref st df)))) \<and>
    (\<exists>out st'. brand_summary st df = Inr (out, st') \<and>
       take (length (objects st)) (objects st') = objects st \<and>
       deref st' df = deref st df)"
proof -
  define n where "n = length (objects st)"
  have keep: "take n (objects st') = objects st \<and> deref st' df = deref st df"
    if "objects st' = objects st @ new" for st' new
    using that assms(2) by (simp add: n_def deref_def nth_append)
  have low: "(\<exists>out st'. low_stock_profitable st df qt mt = Inr (out, st') \<and>
       take (length (objects st)) (objects st') = objects st \<and>
       deref st' df = deref st df)"
  proof -
    from low_stock_profitable_result [OF assms(1), of qt mt] obtain st' where
      run: "low_stock_profitable st df qt mt = Inr (n, st')" and
      obj: "objects st' = objects st @ [low_stock_table (deref st df) qt mt]"
      unfolding n_def by blast
    from run keep [OF obj] show ?thesis unfolding n_def by blast
  qed
  have over: "(\<exists>out st'. overstock_low_profit st df qt' mt' = Inr (out, st') \<and>
       take (length (objects st)) (objects st') = objects st \<and>
       deref st' df = deref st df)"
  proof -
    from overstock_low_profit_result [OF assms(1), of qt' mt'] obtain st' where
      run: "overstock_low_profit st df qt' mt' = Inr (n, st')" and
      obj: "objects st' = objects st @ [overstock_table (deref st df) qt' mt']"
      unfolding n_def by blast
    from run keep [OF obj] show ?thesis unfolding n_def by blast
  qed
  have fast: "(\<exists>out st'. fast_moving_products st df vt mms = Inr (out, st') \<and>
       take (length (objects st)) (objects st') = objects st \<and>
       deref st' df = deref st df \<and>
       (''SellThroughRate'' \<in> set (columns (deref st' df)) \<longleftrightarrow>
        ''SellThroughRate'' \<in> set (columns (deref st df))))"
  proof -
    from fast_moving_products_result [OF assms(1), of vt mms] obtain st' where
      run: "fast_moving_products st df vt mms = Inr (Suc n, st')" and
      obj: "objects st' = objects st @
        [working_table (deref st df) mms, fast_table (deref st df) vt mms]"
      unfolding n_def by blast
    from keep [OF obj] have k: "take n (objects st') = objects st" "deref st' df = deref st df"
      by simp_all
    then have "''SellThroughRate'' \<in> set (columns (deref st' df)) \<longleftrightarrow>
        ''SellThroughRate'' \<in> set (columns (deref st df))"
      by simp
    with run k show ?thesis unfolding n_def by blast
  qed
  have brand: "(\<exists>out st'. brand_summary st df = Inr (out, st') \<and>
       take (length (objects st)) (objects st') = objects st \<and>
       deref st' df = deref st df)"
  proof -
    from brand_summary_result [OF assms(1)] obtain st' where
      run: "brand_summary st df = Inr (n, st')" and
      obj: "objects st' = objects st @ [brand_table (deref st df)]"
      unfolding n_def by blast
    from run keep [OF obj] show ?thesis unfolding n_def by blast
  qed
  from low over fast brand show ?thesis by (intro conjI)
qed

lemma example_ref: "0 < length (objects example_state)"
  by (simp add: example_state_def)

lemma example_no_rate: "''SellThroughRate'' \<notin> set (columns example_table)"
  by (simp add: example_table_def)

theorem insight_functions_frame_witness:
  "enriched (deref example_state 0) \<and> 0 < length (objects example_state) \<and>
   (\<exists>out st'. low_stock_profitable example_state 0 60 (Fin 20) = Inr (out, st') \<and>
       take (length (objects example_state)) (objects st') = objects example_state \<and>
       deref st' 0 = example_table) \<and>
   (\<exists>out st'. overstock_low_profit example_state 0 20 (Fin 110) = Inr (out, st') \<and>
       take (length (objects example_state)) (objects st') = objects example_state \<and>
       deref st' 0 = example_table) \<and>
   (\<exists>out st'. fast_moving_products example_state 0 (Fin (6 / 5)) 40 = Inr (out, st') \<and>
       take (length (objects example_state)) (objects st') = objects example_state \<and>
       deref st' 0 = example_table \<and>
       ''SellThroughRate'' \<notin> set (columns (deref st' 0))) \<and>
   (\<exists>out st'. brand_summary example_state 0 = Inr (out, st') \<and>
       take (length (objects example_state)) (objects st') = objects example_state \<and>
       deref st' 0 = example_table)"
proof -
  have d: "deref example_state 0 = example_table"
    by (simp add: deref_def example_state_def)
  note a = insight_functions_frame [OF example_enriched example_ref,
      of 60 "Fin 20" 20 "Fin 110" "Fin (6 / 5)" 40, unfolded d]
  from a have c1: "(\<exists>out st'. low_stock_profitable example_state 0 60 (Fin 20) = Inr (out, st') \<and>
       take (length (objects example_state)) (objects st') = objects example_state \<and>
       deref st' 0 = example_table)"
    by (elim conjE)
  from a have c2: "(\<exists>out st'. overstock_low_profit example_state 0 20 (Fin 110) = Inr (out, st') \<and>
       take (length (objects example_state)) (objects st') = objects example_state \<and>
       deref st' 0 = example_table)"
    by (elim conjE)
  from a example_no_rate have c3: "(\<exists>out st'. fast_moving_products example_state 0 (Fin (6 / 5)) 40 = Inr (out, st') \<and>
       take (length (objects example_state)) (objects st') = objects example_state \<and>
       deref st' 0 = example_table \<and>
       ''SellThroughRate'' \<notin> set (columns (deref st' 0)))"
    by (elim conjE exE) (intro exI conjI, assumption, assumption, assumption, simp)
  from a have c4: "(\<exists>out st'. brand_summary example_state 0 = Inr (out, st') \<and>
       take (length (objects example_state)) (objects st') = objects example_state \<and>
       deref st' 0 = example_table)"
    by (elim conjE)
  from example_enriched example_ref c1 c2 c3 c4 show ?thesis
    by (intro conjI)
qed


end
